theory Spec2Isabelle
  imports Main
begin

section \<open>Workflow templates of \<open>fmriprep/workflows/bold/util.py\<close>\<close>

text \<open>
  The module builds three processing graphs with the workflow engine it imports
  (\<open>pe.Workflow\<close>, \<open>pe.Node\<close>). The graphs are data: nodes with an interface, literal
  inputs and resource hints, and connections between named ports. The three builder
  functions are embedded as functions from their arguments to the graph they construct;
  an exception raised while connecting is the \<open>Inl\<close> branch of the result.
\<close>

subsection \<open>Values, interfaces and nodes\<close>

text \<open>
  Python literals that the module binds to node inputs and resource hints.
  \<open>PFloat m e\<close> is the decimal literal \<open>m * 10^e\<close> (\<open>0.95\<close> is \<open>PFloat 95 (-2)\<close>);
  no arithmetic is ever done on it.
\<close>

datatype pyval = PNone | PBool bool | PInt int | PFloat int int | PStr string

text \<open>
  An interface object as the module constructs it: \<open>niu.IdentityInterface(fields=[...])\<close>
  declares its ports in the source; any other interface is a wrapped tool, given by its
  class and the keyword arguments of its constructor. The port lists of the wrapped tools
  are declared in the libraries that define them, not in this module.
\<close>

datatype interface =
    IdentityInterface (fields: "string list")
  | Interface (tool: string) (kwargs: "(string \<times> pyval) list")

text \<open>
  \<open>pe.Node(interface, name=..., mem_gb=..., n_procs=...)\<close>. \<open>inputs\<close> holds the literal
  inputs assigned after construction (\<open>node.inputs.x = v\<close>); the resource hints are absent
  (\<open>None\<close>) unless the source passes them.
\<close>

record node =
  node_name :: string
  interface :: interface
  inputs :: "(string \<times> pyval) list"
  mem_gb :: "pyval option"
  n_procs :: "int option"

definition Node :: "interface \<Rightarrow> string \<Rightarrow> node" where
  "Node iface nm =
     \<lparr>node_name = nm, interface = iface, inputs = [], mem_gb = None, n_procs = None\<rparr>"

text \<open>The literal inputs of a node: constructor keywords, then later assignments.\<close>

definition literal_inputs :: "node \<Rightarrow> (string \<times> pyval) list" where
  "literal_inputs n =
     (case interface n of IdentityInterface fs \<Rightarrow> [] | Interface c kw \<Rightarrow> kw) @ inputs n"

subsection \<open>Connections and workflows\<close>

text \<open>
  A connection joins an output port of one member to an input port of another. Members
  are referred to by their name, which is unique among the members of one workflow.
\<close>

record connection =
  src :: string
  src_out :: string
  dst :: string
  dst_in :: string

datatype workflow =
    Workflow (wf_name: string) (members: "member list") (connections: "connection list")
and member = MNode node | MWorkflow workflow

fun member_name :: "member \<Rightarrow> string" where
  "member_name (MNode n) = node_name n"
| "member_name (MWorkflow w) = wf_name w"

definition find_member :: "workflow \<Rightarrow> string \<Rightarrow> member option" where
  "find_member w nm = find (\<lambda>m. member_name m = nm) (members w)"

definition find_node :: "workflow \<Rightarrow> string \<Rightarrow> node option" where
  "find_node w nm =
     (case find_member w nm of Some (MNode n) \<Rightarrow> Some n | _ \<Rightarrow> None)"

subsection \<open>The engine's \<open>connect\<close>\<close>

datatype error =
    DuplicateName string
  | UnknownPort string string
  | DuplicateInput string string
  | CycleDetected "string list"

text \<open>
  A port of a nested workflow is written \<open>boundary.field\<close> in the source
  (\<open>'inputnode.in_file'\<close>): \<open>split_port\<close> cuts the string at its first dot.
\<close>

fun split_port :: "string \<Rightarrow> (string \<times> string) option" where
  "split_port [] = None"
| "split_port (c # cs) =
     (if c = CHR ''.'' then Some ([], cs)
      else (case split_port cs of None \<Rightarrow> None | Some (a, b) \<Rightarrow> Some (c # a, b)))"

text \<open>
  Whether a port exists. An identity node has exactly its declared fields, as inputs and
  as outputs. The ports of a wrapped tool are not declared in this module, so nothing is
  checked for them. A nested workflow exposes the fields of its input boundary
  (\<open>inputnode\<close>) as inputs and those of its output boundary (\<open>outputnode\<close>) as outputs.
\<close>

definition node_has_port :: "node \<Rightarrow> string \<Rightarrow> bool" where
  "node_has_port n p =
     (case interface n of IdentityInterface fs \<Rightarrow> p \<in> set fs | Interface c kw \<Rightarrow> True)"

definition boundary_has_port :: "workflow \<Rightarrow> string \<Rightarrow> string \<Rightarrow> bool" where
  "boundary_has_port w boundary p =
     (case split_port p of
        None \<Rightarrow> False
      | Some (b, f) \<Rightarrow>
          b = boundary \<and>
          (case find_node w b of
             None \<Rightarrow> False
           | Some n \<Rightarrow> (case interface n of
                         IdentityInterface fs \<Rightarrow> f \<in> set fs
                       | Interface c kw \<Rightarrow> False)))"

fun has_output :: "member \<Rightarrow> string \<Rightarrow> bool" where
  "has_output (MNode n) p = node_has_port n p"
| "has_output (MWorkflow w) p = boundary_has_port w ''outputnode'' p"

fun has_input :: "member \<Rightarrow> string \<Rightarrow> bool" where
  "has_input (MNode n) p = node_has_port n p"
| "has_input (MWorkflow w) p = boundary_has_port w ''inputnode'' p"

text \<open>
  Modelled from the spec: the engine's graph builder (\<open>pe.Workflow.connect\<close>) is not part
  of this module. An endpoint that is not yet a member is added; a different member of
  the same name is refused with \<open>DuplicateName\<close>. A connection is refused with
  \<open>UnknownPort\<close> when a named port does not exist and with \<open>DuplicateInput\<close> when the
  destination input already has an inbound connection; a refused call leaves no partial
  graph. The semantic types of ports are not declared in this module, so the engine's
  type check has nothing to compare and is left out.
\<close>

definition add_member :: "workflow \<Rightarrow> member \<Rightarrow> error + workflow" where
  "add_member w m =
     (case find_member w (member_name m) of
        None \<Rightarrow> Inr (Workflow (wf_name w) (members w @ [m]) (connections w))
      | Some m' \<Rightarrow> if m' = m then Inr w else Inl (DuplicateName (member_name m)))"

definition input_connected :: "workflow \<Rightarrow> string \<Rightarrow> string \<Rightarrow> bool" where
  "input_connected w d p = list_ex (\<lambda>c. dst c = d \<and> dst_in c = p) (connections w)"

definition connect1 ::
  "workflow \<Rightarrow> member \<times> string \<times> member \<times> string \<Rightarrow> error + workflow" where
  "connect1 w e =
     (case e of (s, so, d, di) \<Rightarrow>
        (case add_member w s of
           Inl err \<Rightarrow> Inl err
         | Inr w1 \<Rightarrow>
             (case add_member w1 d of
                Inl err \<Rightarrow> Inl err
              | Inr w2 \<Rightarrow>
                  if \<not> has_output s so then Inl (UnknownPort (member_name s) so)
                  else if \<not> has_input d di then Inl (UnknownPort (member_name d) di)
                  else if input_connected w2 (member_name d) di
                    then Inl (DuplicateInput (member_name d) di)
                  else Inr (Workflow (wf_name w2) (members w2)
                         (connections w2 @
                            [\<lparr>src = member_name s, src_out = so,
                              dst = member_name d, dst_in = di\<rparr>])))))"

fun connect_all ::
  "workflow \<Rightarrow> (member \<times> string \<times> member \<times> string) list \<Rightarrow> error + workflow" where
  "connect_all w [] = Inr w"
| "connect_all w (e # es) =
     (case connect1 w e of Inl err \<Rightarrow> Inl err | Inr w' \<Rightarrow> connect_all w' es)"

text \<open>
  The argument of \<open>workflow.connect\<close> in the source is a list of
  \<open>(source, destination, [(output, input), ...])\<close>; each port pair is one connection.
\<close>

definition expand ::
  "(member \<times> member \<times> (string \<times> string) list) list \<Rightarrow>
   (member \<times> string \<times> member \<times> string) list" where
  "expand cs = concat (map (\<lambda>(s, d, ps). map (\<lambda>(so, di). (s, so, d, di)) ps) cs)"

definition connect ::
  "workflow \<Rightarrow> (member \<times> member \<times> (string \<times> string) list) list \<Rightarrow> error + workflow" where
  "connect w cs = connect_all w (expand cs)"

subsection \<open>The three builders\<close>

text \<open>
  Each builder creates an empty workflow and its nodes, and hands all its connections to
  one call of \<open>connect\<close>, in the order of the source. A local variable of the source
  bound to a node is a \<open>let\<close>-bound member here; the keyword arguments of an interface
  constructor are the \<open>kwargs\<close> of the interface; \<open>mem_gb\<close> and \<open>n_procs\<close> passed to
  \<open>pe.Node\<close> are updates of the node record. \<open>omp_nthreads\<close> is a Python integer, \<open>name\<close>
  a string, and \<open>bold_file\<close> any value, \<open>None\<close> being \<open>PNone\<close>. The nested workflow of
  \<open>init_bold_reference_wf\<close> is built with its default name.
\<close>

definition DEFAULT_MEMORY_MIN_GB :: pyval where
  "DEFAULT_MEMORY_MIN_GB = PFloat 1 (-2)"

definition init_enhance_and_skullstrip_bold_wf :: "string \<Rightarrow> int \<Rightarrow> error + workflow" where
  "init_enhance_and_skullstrip_bold_wf name omp_nthreads =
    (let workflow = Workflow name [] [];
         inputnode = MNode (Node (IdentityInterface [''in_file'']) ''inputnode'');
         outputnode = MNode (Node (IdentityInterface
           [''mask_file'', ''skull_stripped_file'', ''bias_corrected_file'']) ''outputnode'');
         n4_mask = MNode (Node (Interface ''MaskEPI''
           [(''upper_cutoff'', PFloat 95 (-2)), (''opening'', PInt 1),
            (''no_sanitize'', PBool True)]) ''n4_mask'');
         n4_correct = MNode ((Node (Interface ''ants.N4BiasFieldCorrection''
           [(''dimension'', PInt 3), (''copy_header'', PBool True)]) ''n4_correct'')
           \<lparr>n_procs := Some 1\<rparr>);
         skullstrip_first_pass = MNode (Node (Interface ''fsl.BET''
           [(''frac'', PFloat 2 (-1)), (''mask'', PBool True)]) ''skullstrip_first_pass'');
         bet_dilate = MNode (Node (Interface ''fsl.DilateImage''
           [(''operation'', PStr ''max''), (''kernel_shape'', PStr ''sphere''),
            (''kernel_size'', PFloat 60 (-1)), (''internal_datatype'', PStr ''char'')])
           ''skullstrip_first_dilate'');
         bet_mask = MNode (Node (Interface ''fsl.ApplyMask'' []) ''skullstrip_first_mask'');
         unifize = MNode (Node (Interface ''afni.Unifize''
           [(''t2'', PBool True), (''outputtype'', PStr ''NIFTI_GZ''),
            (''args'', PStr ''-clfrac 0.2 -rbt 18.3 65.0 90.0''),
            (''out_file'', PStr ''uni.nii.gz'')]) ''unifize'');
         fixhdr_unifize = MNode ((Node (Interface ''CopyXForm'' []) ''fixhdr_unifize'')
           \<lparr>mem_gb := Some (PFloat 1 (-1))\<rparr>);
         skullstrip_second_pass = MNode (Node (Interface ''afni.Automask''
           [(''dilate'', PInt 1), (''outputtype'', PStr ''NIFTI_GZ'')])
           ''skullstrip_second_pass'');
         fixhdr_skullstrip2 = MNode ((Node (Interface ''CopyXForm'' []) ''fixhdr_skullstrip2'')
           \<lparr>mem_gb := Some (PFloat 1 (-1))\<rparr>);
         combine_masks = MNode (Node (Interface ''fsl.BinaryMaths''
           [(''operation'', PStr ''mul'')]) ''combine_masks'');
         apply_mask = MNode (Node (Interface ''fsl.ApplyMask'' []) ''apply_mask'')
     in connect workflow [
          (inputnode, n4_mask, [(''in_file'', ''in_files'')]),
          (inputnode, n4_correct, [(''in_file'', ''input_image'')]),
          (inputnode, fixhdr_unifize, [(''in_file'', ''hdr_file'')]),
          (inputnode, fixhdr_skullstrip2, [(''in_file'', ''hdr_file'')]),
          (n4_mask, n4_correct, [(''out_mask'', ''mask_image'')]),
          (n4_correct, skullstrip_first_pass, [(''output_image'', ''in_file'')]),
          (skullstrip_first_pass, bet_dilate, [(''mask_file'', ''in_file'')]),
          (bet_dilate, bet_mask, [(''out_file'', ''mask_file'')]),
          (skullstrip_first_pass, bet_mask, [(''out_file'', ''in_file'')]),
          (bet_mask, unifize, [(''out_file'', ''in_file'')]),
          (unifize, fixhdr_unifize, [(''out_file'', ''in_file'')]),
          (fixhdr_unifize, skullstrip_second_pass, [(''out_file'', ''in_file'')]),
          (skullstrip_first_pass, combine_masks, [(''mask_file'', ''in_file'')]),
          (skullstrip_second_pass, fixhdr_skullstrip2, [(''out_file'', ''in_file'')]),
          (fixhdr_skullstrip2, combine_masks, [(''out_file'', ''operand_file'')]),
          (fixhdr_unifize, apply_mask, [(''out_file'', ''in_file'')]),
          (combine_masks, apply_mask, [(''out_file'', ''mask_file'')]),
          (combine_masks, outputnode, [(''out_file'', ''mask_file'')]),
          (apply_mask, outputnode, [(''out_file'', ''skull_stripped_file'')]),
          (n4_correct, outputnode, [(''output_image'', ''bias_corrected_file'')])
        ])"

definition init_bold_reference_wf :: "int \<Rightarrow> pyval \<Rightarrow> string \<Rightarrow> error + workflow" where
  "init_bold_reference_wf omp_nthreads bold_file name =
    (let workflow = Workflow name [] [];
         inputnode0 = Node (IdentityInterface [''bold_file'']) ''inputnode'';
         outputnode = MNode (Node (IdentityInterface
           [''bold_file'', ''raw_ref_image'', ''skip_vols'', ''ref_image'',
            ''ref_image_brain'', ''bold_mask'', ''validation_report'']) ''outputnode'');
         inputnode = MNode (if bold_file \<noteq> PNone
           then inputnode0\<lparr>inputs := [(''bold_file'', bold_file)]\<rparr>
           else inputnode0);
         validate = MNode ((Node (Interface ''ValidateImage'' []) ''validate'')
           \<lparr>mem_gb := Some DEFAULT_MEMORY_MIN_GB\<rparr>);
         gen_ref = MNode ((Node (Interface ''EstimateReferenceImage'' []) ''gen_ref'')
           \<lparr>mem_gb := Some (PInt 1)\<rparr>)
     in case init_enhance_and_skullstrip_bold_wf ''enhance_and_skullstrip_bold_wf''
               omp_nthreads of
          Inl err \<Rightarrow> Inl err
        | Inr sub \<Rightarrow>
           (let enhance_and_skullstrip_bold_wf = MWorkflow sub
            in connect workflow [
              (inputnode, validate, [(''bold_file'', ''in_file'')]),
              (validate, gen_ref, [(''out_file'', ''in_file'')]),
              (gen_ref, enhance_and_skullstrip_bold_wf,
                 [(''ref_image'', ''inputnode.in_file'')]),
              (validate, outputnode, [(''out_file'', ''bold_file''),
                                      (''out_report'', ''validation_report'')]),
              (gen_ref, outputnode, [(''ref_image'', ''raw_ref_image''),
                                     (''n_volumes_to_discard'', ''skip_vols'')]),
              (enhance_and_skullstrip_bold_wf, outputnode, [
                 (''outputnode.bias_corrected_file'', ''ref_image''),
                 (''outputnode.mask_file'', ''bold_mask''),
                 (''outputnode.skull_stripped_file'', ''ref_image_brain'')])
            ]))"

definition init_skullstrip_bold_wf :: "string \<Rightarrow> error + workflow" where
  "init_skullstrip_bold_wf name =
    (let workflow = Workflow name [] [];
         inputnode = MNode (Node (IdentityInterface [''in_file'']) ''inputnode'');
         outputnode = MNode (Node (IdentityInterface
           [''mask_file'', ''skull_stripped_file'', ''out_report'']) ''outputnode'');
         skullstrip_first_pass = MNode (Node (Interface ''fsl.BET''
           [(''frac'', PFloat 2 (-1)), (''mask'', PBool True)]) ''skullstrip_first_pass'');
         skullstrip_second_pass = MNode (Node (Interface ''afni.Automask''
           [(''dilate'', PInt 1), (''outputtype'', PStr ''NIFTI_GZ'')])
           ''skullstrip_second_pass'');
         combine_masks = MNode (Node (Interface ''fsl.BinaryMaths''
           [(''operation'', PStr ''mul'')]) ''combine_masks'');
         apply_mask = MNode (Node (Interface ''fsl.ApplyMask'' []) ''apply_mask'');
         mask_reportlet = MNode (Node (Interface ''SimpleShowMaskRPT'' []) ''mask_reportlet'')
     in connect workflow [
          (inputnode, skullstrip_first_pass, [(''in_file'', ''in_file'')]),
          (skullstrip_first_pass, skullstrip_second_pass, [(''out_file'', ''in_file'')]),
          (skullstrip_first_pass, combine_masks, [(''mask_file'', ''in_file'')]),
          (skullstrip_second_pass, combine_masks, [(''out_file'', ''operand_file'')]),
          (combine_masks, outputnode, [(''out_file'', ''mask_file'')]),
          (inputnode, apply_mask, [(''in_file'', ''in_file'')]),
          (combine_masks, apply_mask, [(''out_file'', ''mask_file'')]),
          (apply_mask, outputnode, [(''out_file'', ''skull_stripped_file'')]),
          (inputnode, mask_reportlet, [(''in_file'', ''background_file'')]),
          (combine_masks, mask_reportlet, [(''out_file'', ''mask_file'')]),
          (mask_reportlet, outputnode, [(''out_report'', ''out_report'')])
        ])"

subsection \<open>Reading a workflow\<close>

text \<open>The declared fields of the identity node of the given name, if there is one.\<close>

definition boundary_fields :: "workflow \<Rightarrow> string \<Rightarrow> string list option" where
  "boundary_fields w b =
     (case find_node w b of
        None \<Rightarrow> None
      | Some n \<Rightarrow> (case interface n of
                    IdentityInterface fs \<Rightarrow> Some fs
                  | Interface c kw \<Rightarrow> None))"

text \<open>The connections that write input \<open>p\<close> of member \<open>d\<close>, and all those into \<open>d\<close>.\<close>

definition inbound :: "workflow \<Rightarrow> string \<Rightarrow> string \<Rightarrow> connection list" where
  "inbound w d p = filter (\<lambda>c. dst c = d \<and> dst_in c = p) (connections w)"

definition into :: "workflow \<Rightarrow> string \<Rightarrow> connection list" where
  "into w d = filter (\<lambda>c. dst c = d) (connections w)"

definition out_of :: "workflow \<Rightarrow> string \<Rightarrow> connection list" where
  "out_of w s = filter (\<lambda>c. src c = s) (connections w)"

text \<open>No input port of any member is written by more than one connection.\<close>

definition inputs_once :: "workflow \<Rightarrow> bool" where
  "inputs_once w = distinct (map (\<lambda>c. (dst c, dst_in c)) (connections w))"

text \<open>
  Every connection joins two members of the workflow and names ports they have. Only an
  identity node and the boundaries of a nested workflow declare their ports in this
  module, so this constrains exactly the endpoints that are boundary nodes.
\<close>

definition ports_declared :: "workflow \<Rightarrow> bool" where
  "ports_declared w =
     list_all (\<lambda>c.
        (case find_member w (src c) of None \<Rightarrow> False | Some m \<Rightarrow> has_output m (src_out c)) \<and>
        (case find_member w (dst c) of None \<Rightarrow> False | Some m \<Rightarrow> has_input m (dst_in c)))
       (connections w)"

fun is_workflow :: "member \<Rightarrow> bool" where
  "is_workflow (MNode n) = False"
| "is_workflow (MWorkflow w) = True"

subsection \<open>The graph a workflow induces\<close>

text \<open>
  The directed graph over the members of a workflow: one edge per connection, from its
  source member to its destination member. Member \<open>a\<close> depends on member \<open>b\<close> when a
  path of connections leads from \<open>b\<close> to \<open>a\<close>.
\<close>

definition edge_list :: "workflow \<Rightarrow> (string \<times> string) list" where
  "edge_list w = map (\<lambda>c. (src c, dst c)) (connections w)"

definition edges :: "workflow \<Rightarrow> (string \<times> string) set" where
  "edges w = set (edge_list w)"

definition depends_on :: "workflow \<Rightarrow> string \<Rightarrow> string \<Rightarrow> bool" where
  "depends_on w a b \<longleftrightarrow> (b, a) \<in> (edges w)\<^sup>+"

text \<open>The place of a name in an order (the length of the order if it is not there).\<close>

definition position :: "string list \<Rightarrow> string \<Rightarrow> nat" where
  "position xs x = length (takeWhile (\<lambda>y. y \<noteq> x) xs)"

text \<open>An order respects a workflow when every connection goes forward in it.\<close>

definition forward_in :: "string list \<Rightarrow> workflow \<Rightarrow> bool" where
  "forward_in seq w =
     list_all (\<lambda>(u, v). position seq u < position seq v) (edge_list w)"

text \<open>
  The members that feed \<open>d\<close> are independent when none of them depends on another.
\<close>

definition branches_independent :: "workflow \<Rightarrow> string \<Rightarrow> bool" where
  "branches_independent w d =
     (\<forall>a \<in> set (map src (into w d)). \<forall>b \<in> set (map src (into w d)). \<not> depends_on w a b)"

subsection \<open>The engine's planner\<close>

text \<open>
  Modelled from the spec: the topological planner is part of the engine, not of this
  module. It orders the members of a graph so that the source of every connection
  precedes its destination, repeatedly placing the first member, in insertion order,
  none of whose sources is still waiting. When members are left and none can be placed it
  fails with \<open>CycleDetected\<close> and reports a cycle, found by walking back along the
  connections among the members that are left until a member repeats. A nested graph is
  one member of its parent here; the executor applies the planner to the flattened graph.
\<close>

definition ready :: "(string \<times> string) list \<Rightarrow> string list \<Rightarrow> string \<Rightarrow> bool" where
  "ready es todo x = list_all (\<lambda>(u, v). v \<noteq> x \<or> u \<notin> set todo) es"

fun walk_back ::
  "nat \<Rightarrow> (string \<times> string) list \<Rightarrow> string list \<Rightarrow> string \<Rightarrow> string list \<Rightarrow> string list" where
  "walk_back 0 es todo x seen = x # takeWhile (\<lambda>y. y \<noteq> x) seen"
| "walk_back (Suc n) es todo x seen =
     (if x \<in> set seen then x # takeWhile (\<lambda>y. y \<noteq> x) seen
      else (case find (\<lambda>(u, v). v = x \<and> u \<in> set todo) es of
              None \<Rightarrow> []
            | Some (u, v) \<Rightarrow> walk_back n es todo u (x # seen)))"

definition find_cycle :: "(string \<times> string) list \<Rightarrow> string list \<Rightarrow> string list" where
  "find_cycle es todo =
     (case todo of [] \<Rightarrow> [] | x # xs \<Rightarrow> walk_back (length todo) es todo x [])"

function topo ::
  "(string \<times> string) list \<Rightarrow> string list \<Rightarrow> string list \<Rightarrow> error + string list" where
  "topo es todo placed =
     (if todo = [] then Inr placed
      else (case find (ready es todo) todo of
              None \<Rightarrow> Inl (CycleDetected (find_cycle es todo))
            | Some x \<Rightarrow> topo es (remove1 x todo) (placed @ [x])))"
  by pat_completeness auto
termination
  by (relation "measure (\<lambda>(es, todo, placed). length todo)")
     (auto simp add: find_Some_iff length_remove1 in_set_conv_nth intro!: diff_less)

definition plan :: "workflow \<Rightarrow> error + string list" where
  "plan w = topo (edge_list w) (map member_name (members w)) []"

subsection \<open>Flattening nested workflows\<close>

text \<open>
  Modelled from the spec: flattening is done by the engine's planner, which is not part of
  this module. The nodes of a nested workflow become nodes of the parent under their
  qualified name \<open>workflow.node\<close>; a connection of the parent whose endpoint is a nested
  workflow, with port \<open>boundary.field\<close>, is resolved to the field of that boundary node;
  then each boundary node of a nested workflow is bypassed: every connection into one of
  its fields is joined with every connection out of the same field, a literal input bound
  on a field that has no inbound connection is handed to the inputs that read the field,
  and the boundary node is removed.
\<close>

definition qualify :: "string \<Rightarrow> node \<Rightarrow> node" where
  "qualify prefix n = n\<lparr>node_name := prefix @ ''.'' @ node_name n\<rparr>"

definition qualify_conn :: "string \<Rightarrow> connection \<Rightarrow> connection" where
  "qualify_conn prefix c =
     c\<lparr>src := prefix @ ''.'' @ src c, dst := prefix @ ''.'' @ dst c\<rparr>"

definition resolve_conn :: "string list \<Rightarrow> connection \<Rightarrow> connection" where
  "resolve_conn subs c =
     (let c1 = (if src c \<in> set subs
                then (case split_port (src_out c) of
                        None \<Rightarrow> c
                      | Some (b, f) \<Rightarrow> c\<lparr>src := src c @ ''.'' @ b, src_out := f\<rparr>)
                else c)
      in if dst c1 \<in> set subs
         then (case split_port (dst_in c1) of
                 None \<Rightarrow> c1
               | Some (b, f) \<Rightarrow> c1\<lparr>dst := dst c1 @ ''.'' @ b, dst_in := f\<rparr>)
         else c1)"

definition hand_literals ::
  "node \<Rightarrow> connection list \<Rightarrow> node \<Rightarrow> node" where
  "hand_literals b cs n =
     n\<lparr>inputs := inputs n @
        concat (map (\<lambda>c.
          if src c = node_name b \<and> dst c = node_name n \<and>
             \<not> list_ex (\<lambda>ci. dst ci = node_name b \<and> dst_in ci = src_out c) cs
          then (case map_of (literal_inputs b) (src_out c) of
                  None \<Rightarrow> []
                | Some v \<Rightarrow> [(dst_in c, v)])
          else []) cs)\<rparr>"

definition bypass :: "node list \<times> connection list \<Rightarrow> string \<Rightarrow> node list \<times> connection list" where
  "bypass g b =
     (case g of (ns, cs) \<Rightarrow>
        (case find (\<lambda>n. node_name n = b) ns of
           None \<Rightarrow> (ns, cs)
         | Some bn \<Rightarrow>
            (map (hand_literals bn cs) (filter (\<lambda>n. node_name n \<noteq> b) ns),
             filter (\<lambda>c. src c \<noteq> b \<and> dst c \<noteq> b) cs @
             concat (map (\<lambda>ci.
               map (\<lambda>co. \<lparr>src = src ci, src_out = src_out ci,
                             dst = dst co, dst_in = dst_in co\<rparr>)
                   (filter (\<lambda>co. src co = b \<and> src_out co = dst_in ci) cs))
               (filter (\<lambda>ci. dst ci = b) cs)))))"

fun flat :: "workflow \<Rightarrow> node list \<times> connection list"
and flat_members :: "member list \<Rightarrow> node list \<times> connection list \<times> string list"
and flat_member :: "member \<Rightarrow> node list \<times> connection list \<times> string list" where
  "flat (Workflow nm ms cs) =
     (case flat_members ms of (ns, inner, subs) \<Rightarrow>
        foldl bypass (ns, map (resolve_conn subs) cs @ inner)
          (concat (map (\<lambda>s. [s @ ''.inputnode'', s @ ''.outputnode'']) subs)))"
| "flat_members [] = ([], [], [])"
| "flat_members (m # ms) =
     (case flat_member m of (ns, cs, subs) \<Rightarrow>
        (case flat_members ms of (ns', cs', subs') \<Rightarrow> (ns @ ns', cs @ cs', subs @ subs')))"
| "flat_member (MNode n) = ([n], [], [])"
| "flat_member (MWorkflow s) =
     (case flat s of (ns, cs) \<Rightarrow>
        (map (qualify (wf_name s)) ns, map (qualify_conn (wf_name s)) cs, [wf_name s]))"

definition flatten :: "workflow \<Rightarrow> workflow" where
  "flatten w = (case flat w of (ns, cs) \<Rightarrow> Workflow (wf_name w) (map MNode ns) cs)"

subsection \<open>The engine's executor and cache\<close>

text \<open>
  Modelled from the spec: the executor and the execution cache are part of the engine, not
  of this module. A unit of work is an external collaborator: given a node and its
  resolved input values it returns named result values, or fails with a message. The
  fingerprint of an execution is the node's qualified name, its interface and its resolved
  input values, listed in a fixed order (literal inputs, then connections in the order of
  their declaration). A cache entry holds the outputs of a completed execution; an entry
  that cannot be read (\<open>Corrupt\<close>) counts as a miss.
\<close>

type_synonym vals = "(string \<times> pyval) list"

datatype fingerprint = Fingerprint string interface vals

datatype entry = Entry vals | Corrupt

record run_state =
  cache :: "fingerprint \<Rightarrow> entry option"
  produced :: "(string \<times> vals) list"
  failed :: "(string \<times> string) list"
  blocked :: "string list"
  dispatched :: "string list"

datatype status = Success | PartialFailure "(string \<times> string) list" "string list"

text \<open>
  The literal inputs of a node in a run: the run's overrides for this node, then the
  literal inputs bound at build time that are not overridden.
\<close>

definition literals :: "((string \<times> string) \<times> pyval) list \<Rightarrow> node \<Rightarrow> vals" where
  "literals ov n =
     (let mine = map (\<lambda>((m, k), v). (k, v)) (filter (\<lambda>((m, k), v). m = node_name n) ov)
      in mine @ filter (\<lambda>(k, v). k \<notin> set (map fst mine)) (literal_inputs n))"

text \<open>The value a connection carries: the named output of its source, once produced.\<close>

definition upstream :: "(string \<times> vals) list \<Rightarrow> connection \<Rightarrow> pyval option" where
  "upstream ps c =
     (case map_of ps (src c) of None \<Rightarrow> None | Some outs \<Rightarrow> map_of outs (src_out c))"

text \<open>
  One node of the planned order. A node one of whose inputs cannot be read from a
  completed upstream node is \<open>Blocked\<close> and not attempted. Otherwise its inputs are
  resolved and its fingerprint looked up: on a hit the cached outputs are taken and
  nothing is dispatched; on a miss the unit of work is dispatched, and its outputs are
  stored in the cache unless it fails.
\<close>

definition exec_node ::
  "(node \<Rightarrow> vals \<Rightarrow> string + vals) \<Rightarrow> ((string \<times> string) \<times> pyval) list \<Rightarrow>
   workflow \<Rightarrow> run_state \<Rightarrow> string \<Rightarrow> run_state" where
  "exec_node work ov g s x =
     (case find_node g x of
        None \<Rightarrow> s\<lparr>blocked := blocked s @ [x]\<rparr>
      | Some n \<Rightarrow>
         (case those (map (upstream (produced s)) (into g x)) of
            None \<Rightarrow> s\<lparr>blocked := blocked s @ [x]\<rparr>
          | Some vs \<Rightarrow>
             (let ins = literals ov n @ zip (map dst_in (into g x)) vs;
                  fp = Fingerprint x (interface n) ins
              in case cache s fp of
                   Some (Entry outs) \<Rightarrow> s\<lparr>produced := produced s @ [(x, outs)]\<rparr>
                 | _ \<Rightarrow>
                    (case work n ins of
                       Inl msg \<Rightarrow> s\<lparr>failed := failed s @ [(x, msg)]\<rparr>
                     | Inr outs \<Rightarrow>
                         s\<lparr>cache := (cache s)(fp \<mapsto> Entry outs),
                           produced := produced s @ [(x, outs)],
                           dispatched := dispatched s @ [x]\<rparr>))))"

text \<open>
  A run plans the flattened graph and walks the order, starting from the given cache with
  nothing produced. It is \<open>Success\<close> when no node failed or was blocked.
\<close>

definition run ::
  "(node \<Rightarrow> vals \<Rightarrow> string + vals) \<Rightarrow> workflow \<Rightarrow> ((string \<times> string) \<times> pyval) list \<Rightarrow>
   (fingerprint \<Rightarrow> entry option) \<Rightarrow> error + run_state" where
  "run work w ov c =
     (let g = flatten w
      in case plan g of
           Inl e \<Rightarrow> Inl e
         | Inr seq \<Rightarrow>
             Inr (foldl (exec_node work ov g)
                    \<lparr>cache = c, produced = [], failed = [], blocked = [], dispatched = []\<rparr>
                    seq))"

definition status_of :: "run_state \<Rightarrow> status" where
  "status_of s =
     (if failed s = [] \<and> blocked s = [] then Success
      else PartialFailure (failed s) (blocked s))"

text \<open>
  A three-node chain \<open>A \<rightarrow> B \<rightarrow> C\<close>, where \<open>A\<close> has one literal input, and a unit of work
  that returns one more than the sum of its integer inputs.
\<close>

definition chain3 :: workflow where
  "chain3 = Workflow ''chain''
     [MNode ((Node (Interface ''Succ'' [(''x'', PInt 1)]) ''A'')),
      MNode (Node (Interface ''Succ'' []) ''B''),
      MNode (Node (Interface ''Succ'' []) ''C'')]
     [\<lparr>src = ''A'', src_out = ''out'', dst = ''B'', dst_in = ''x''\<rparr>,
      \<lparr>src = ''B'', src_out = ''out'', dst = ''C'', dst_in = ''x''\<rparr>]"

definition succ_work :: "node \<Rightarrow> vals \<Rightarrow> string + vals" where
  "succ_work n ins =
     Inr [(''out'', PInt (1 + sum_list (map (\<lambda>(k, v). case v of PInt i \<Rightarrow> i | _ \<Rightarrow> 0) ins)))]"

section \<open>Properties\<close>

subsection \<open>What the builders return\<close>

lemma Node_sel:
  "node_name (Node i n) = n" "interface (Node i n) = i" "inputs (Node i n) = []"
  "mem_gb (Node i n) = None" "n_procs (Node i n) = None"
  by (simp_all add: Node_def)

lemmas build_simps = Node_sel connect_def expand_def connect1_def add_member_def
  find_member_def find_node_def input_connected_def node_has_port_def boundary_has_port_def

lemma skullstrip_built:
  "init_skullstrip_bold_wf name = Inr (Workflow name
     [MNode (Node (IdentityInterface [''in_file'']) ''inputnode''),
      MNode (Node (Interface ''fsl.BET'' [(''frac'', PFloat 2 (-1)), (''mask'', PBool True)]) ''skullstrip_first_pass''),
      MNode (Node (Interface ''afni.Automask'' [(''dilate'', PInt 1), (''outputtype'', PStr ''NIFTI_GZ'')]) ''skullstrip_second_pass''),
      MNode (Node (Interface ''fsl.BinaryMaths'' [(''operation'', PStr ''mul'')]) ''combine_masks''),
      MNode (Node (IdentityInterface [''mask_file'', ''skull_stripped_file'', ''out_report'']) ''outputnode''),
      MNode (Node (Interface ''fsl.ApplyMask'' []) ''apply_mask''),
      MNode (Node (Interface ''SimpleShowMaskRPT'' []) ''mask_reportlet'')]
     [\<lparr>src = ''inputnode'', src_out = ''in_file'', dst = ''skullstrip_first_pass'', dst_in = ''in_file''\<rparr>,
      \<lparr>src = ''skullstrip_first_pass'', src_out = ''out_file'', dst = ''skullstrip_second_pass'', dst_in = ''in_file''\<rparr>,
      \<lparr>src = ''skullstrip_first_pass'', src_out = ''mask_file'', dst = ''combine_masks'', dst_in = ''in_file''\<rparr>,
      \<lparr>src = ''skullstrip_second_pass'', src_out = ''out_file'', dst = ''combine_masks'', dst_in = ''operand_file''\<rparr>,
      \<lparr>src = ''combine_masks'', src_out = ''out_file'', dst = ''outputnode'', dst_in = ''mask_file''\<rparr>,
      \<lparr>src = ''inputnode'', src_out = ''in_file'', dst = ''apply_mask'', dst_in = ''in_file''\<rparr>,
      \<lparr>src = ''combine_masks'', src_out = ''out_file'', dst = ''apply_mask'', dst_in = ''mask_file''\<rparr>,
      \<lparr>src = ''apply_mask'', src_out = ''out_file'', dst = ''outputnode'', dst_in = ''skull_stripped_file''\<rparr>,
      \<lparr>src = ''inputnode'', src_out = ''in_file'', dst = ''mask_reportlet'', dst_in = ''background_file''\<rparr>,
      \<lparr>src = ''combine_masks'', src_out = ''out_file'', dst = ''mask_reportlet'', dst_in = ''mask_file''\<rparr>,
      \<lparr>src = ''mask_reportlet'', src_out = ''out_report'', dst = ''outputnode'', dst_in = ''out_report''\<rparr>])"
  unfolding init_skullstrip_bold_wf_def Let_def
  by (simp add: build_simps)

lemma enhance_built:
  "init_enhance_and_skullstrip_bold_wf name omp_nthreads = Inr (Workflow name
     [MNode (Node (IdentityInterface [''in_file'']) ''inputnode''),
      MNode (Node (Interface ''MaskEPI'' [(''upper_cutoff'', PFloat 95 (-2)), (''opening'', PInt 1), (''no_sanitize'', PBool True)]) ''n4_mask''),
      MNode ((Node (Interface ''ants.N4BiasFieldCorrection'' [(''dimension'', PInt 3), (''copy_header'', PBool True)]) ''n4_correct'')\<lparr>n_procs := Some 1\<rparr>),
      MNode ((Node (Interface ''CopyXForm'' []) ''fixhdr_unifize'')\<lparr>mem_gb := Some (PFloat 1 (-1))\<rparr>),
      MNode ((Node (Interface ''CopyXForm'' []) ''fixhdr_skullstrip2'')\<lparr>mem_gb := Some (PFloat 1 (-1))\<rparr>),
      MNode (Node (Interface ''fsl.BET'' [(''frac'', PFloat 2 (-1)), (''mask'', PBool True)]) ''skullstrip_first_pass''),
      MNode (Node (Interface ''fsl.DilateImage'' [(''operation'', PStr ''max''), (''kernel_shape'', PStr ''sphere''), (''kernel_size'', PFloat 60 (-1)), (''internal_datatype'', PStr ''char'')]) ''skullstrip_first_dilate''),
      MNode (Node (Interface ''fsl.ApplyMask'' []) ''skullstrip_first_mask''),
      MNode (Node (Interface ''afni.Unifize'' [(''t2'', PBool True), (''outputtype'', PStr ''NIFTI_GZ''), (''args'', PStr ''-clfrac 0.2 -rbt 18.3 65.0 90.0''), (''out_file'', PStr ''uni.nii.gz'')]) ''unifize''),
      MNode (Node (Interface ''afni.Automask'' [(''dilate'', PInt 1), (''outputtype'', PStr ''NIFTI_GZ'')]) ''skullstrip_second_pass''),
      MNode (Node (Interface ''fsl.BinaryMaths'' [(''operation'', PStr ''mul'')]) ''combine_masks''),
      MNode (Node (Interface ''fsl.ApplyMask'' []) ''apply_mask''),
      MNode (Node (IdentityInterface [''mask_file'', ''skull_stripped_file'', ''bias_corrected_file'']) ''outputnode'')]
     [\<lparr>src = ''inputnode'', src_out = ''in_file'', dst = ''n4_mask'', dst_in = ''in_files''\<rparr>,
      \<lparr>src = ''inputnode'', src_out = ''in_file'', dst = ''n4_correct'', dst_in = ''input_image''\<rparr>,
      \<lparr>src = ''inputnode'', src_out = ''in_file'', dst = ''fixhdr_unifize'', dst_in = ''hdr_file''\<rparr>,
      \<lparr>src = ''inputnode'', src_out = ''in_file'', dst = ''fixhdr_skullstrip2'', dst_in = ''hdr_file''\<rparr>,
      \<lparr>src = ''n4_mask'', src_out = ''out_mask'', dst = ''n4_correct'', dst_in = ''mask_image''\<rparr>,
      \<lparr>src = ''n4_correct'', src_out = ''output_image'', dst = ''skullstrip_first_pass'', dst_in = ''in_file''\<rparr>,
      \<lparr>src = ''skullstrip_first_pass'', src_out = ''mask_file'', dst = ''skullstrip_first_dilate'', dst_in = ''in_file''\<rparr>,
      \<lparr>src = ''skullstrip_first_dilate'', src_out = ''out_file'', dst = ''skullstrip_first_mask'', dst_in = ''mask_file''\<rparr>,
      \<lparr>src = ''skullstrip_first_pass'', src_out = ''out_file'', dst = ''skullstrip_first_mask'', dst_in = ''in_file''\<rparr>,
      \<lparr>src = ''skullstrip_first_mask'', src_out = ''out_file'', dst = ''unifize'', dst_in = ''in_file''\<rparr>,
      \<lparr>src = ''unifize'', src_out = ''out_file'', dst = ''fixhdr_unifize'', dst_in = ''in_file''\<rparr>,
      \<lparr>src = ''fixhdr_unifize'', src_out = ''out_file'', dst = ''skullstrip_second_pass'', dst_in = ''in_file''\<rparr>,
      \<lparr>src = ''skullstrip_first_pass'', src_out = ''mask_file'', dst = ''combine_masks'', dst_in = ''in_file''\<rparr>,
      \<lparr>src = ''skullstrip_second_pass'', src_out = ''out_file'', dst = ''fixhdr_skullstrip2'', dst_in = ''in_file''\<rparr>,
      \<lparr>src = ''fixhdr_skullstrip2'', src_out = ''out_file'', dst = ''combine_masks'', dst_in = ''operand_file''\<rparr>,
      \<lparr>src = ''fixhdr_unifize'', src_out = ''out_file'', dst = ''apply_mask'', dst_in = ''in_file''\<rparr>,
      \<lparr>src = ''combine_masks'', src_out = ''out_file'', dst = ''apply_mask'', dst_in = ''mask_file''\<rparr>,
      \<lparr>src = ''combine_masks'', src_out = ''out_file'', dst = ''outputnode'', dst_in = ''mask_file''\<rparr>,
      \<lparr>src = ''apply_mask'', src_out = ''out_file'', dst = ''outputnode'', dst_in = ''skull_stripped_file''\<rparr>,
      \<lparr>src = ''n4_correct'', src_out = ''output_image'', dst = ''outputnode'', dst_in = ''bias_corrected_file''\<rparr>])"
  unfolding init_enhance_and_skullstrip_bold_wf_def Let_def
  by (simp add: build_simps)

lemmas read_simps = Node_sel find_member_def find_node_def boundary_fields_def
  inbound_def into_def out_of_def

lemma bold_reference_connect:
  assumes "node_name inp = ''inputnode''" and "interface inp = IdentityInterface [''bold_file'']"
    and "wf_name sub = ''enhance_and_skullstrip_bold_wf''"
    and "boundary_fields sub ''inputnode'' = Some [''in_file'']"
    and "boundary_fields sub ''outputnode'' =
           Some [''mask_file'', ''skull_stripped_file'', ''bias_corrected_file'']"
  shows "connect (Workflow name [] []) [
      (MNode inp, MNode ((Node (Interface ''ValidateImage'' []) ''validate'')\<lparr>mem_gb := Some (PFloat 1 (-2))\<rparr>), [(''bold_file'', ''in_file'')]),
      (MNode ((Node (Interface ''ValidateImage'' []) ''validate'')\<lparr>mem_gb := Some (PFloat 1 (-2))\<rparr>), MNode ((Node (Interface ''EstimateReferenceImage'' []) ''gen_ref'')\<lparr>mem_gb := Some (PInt 1)\<rparr>), [(''out_file'', ''in_file'')]),
      (MNode ((Node (Interface ''EstimateReferenceImage'' []) ''gen_ref'')\<lparr>mem_gb := Some (PInt 1)\<rparr>), MWorkflow sub, [(''ref_image'', ''inputnode.in_file'')]),
      (MNode ((Node (Interface ''ValidateImage'' []) ''validate'')\<lparr>mem_gb := Some (PFloat 1 (-2))\<rparr>), MNode (Node (IdentityInterface [''bold_file'', ''raw_ref_image'', ''skip_vols'', ''ref_image'', ''ref_image_brain'', ''bold_mask'', ''validation_report'']) ''outputnode''),
         [(''out_file'', ''bold_file''), (''out_report'', ''validation_report'')]),
      (MNode ((Node (Interface ''EstimateReferenceImage'' []) ''gen_ref'')\<lparr>mem_gb := Some (PInt 1)\<rparr>), MNode (Node (IdentityInterface [''bold_file'', ''raw_ref_image'', ''skip_vols'', ''ref_image'', ''ref_image_brain'', ''bold_mask'', ''validation_report'']) ''outputnode''),
         [(''ref_image'', ''raw_ref_image''), (''n_volumes_to_discard'', ''skip_vols'')]),
      (MWorkflow sub, MNode (Node (IdentityInterface [''bold_file'', ''raw_ref_image'', ''skip_vols'', ''ref_image'', ''ref_image_brain'', ''bold_mask'', ''validation_report'']) ''outputnode''),
         [(''outputnode.bias_corrected_file'', ''ref_image''),
          (''outputnode.mask_file'', ''bold_mask''),
          (''outputnode.skull_stripped_file'', ''ref_image_brain'')])]
    = Inr (Workflow name
       [MNode inp,
        MNode ((Node (Interface ''ValidateImage'' []) ''validate'')\<lparr>mem_gb := Some (PFloat 1 (-2))\<rparr>),
        MNode ((Node (Interface ''EstimateReferenceImage'' []) ''gen_ref'')\<lparr>mem_gb := Some (PInt 1)\<rparr>),
        MWorkflow sub,
        MNode (Node (IdentityInterface [''bold_file'', ''raw_ref_image'', ''skip_vols'', ''ref_image'', ''ref_image_brain'', ''bold_mask'', ''validation_report'']) ''outputnode'')]
       [\<lparr>src = ''inputnode'', src_out = ''bold_file'', dst = ''validate'', dst_in = ''in_file''\<rparr>,
        \<lparr>src = ''validate'', src_out = ''out_file'', dst = ''gen_ref'', dst_in = ''in_file''\<rparr>,
        \<lparr>src = ''gen_ref'', src_out = ''ref_image'', dst = ''enhance_and_skullstrip_bold_wf'', dst_in = ''inputnode.in_file''\<rparr>,
        \<lparr>src = ''validate'', src_out = ''out_file'', dst = ''outputnode'', dst_in = ''bold_file''\<rparr>,
        \<lparr>src = ''validate'', src_out = ''out_report'', dst = ''outputnode'', dst_in = ''validation_report''\<rparr>,
        \<lparr>src = ''gen_ref'', src_out = ''ref_image'', dst = ''outputnode'', dst_in = ''raw_ref_image''\<rparr>,
        \<lparr>src = ''gen_ref'', src_out = ''n_volumes_to_discard'', dst = ''outputnode'', dst_in = ''skip_vols''\<rparr>,
        \<lparr>src = ''enhance_and_skullstrip_bold_wf'', src_out = ''outputnode.bias_corrected_file'', dst = ''outputnode'', dst_in = ''ref_image''\<rparr>,
        \<lparr>src = ''enhance_and_skullstrip_bold_wf'', src_out = ''outputnode.mask_file'', dst = ''outputnode'', dst_in = ''bold_mask''\<rparr>,
        \<lparr>src = ''enhance_and_skullstrip_bold_wf'', src_out = ''outputnode.skull_stripped_file'', dst = ''outputnode'', dst_in = ''ref_image_brain''\<rparr>])"
proof -
  have bi: "boundary_has_port sub ''inputnode'' ''inputnode.in_file''"
    using assms(4) by (simp add: boundary_has_port_def boundary_fields_def split: option.splits interface.splits)
  have bo: "boundary_has_port sub ''outputnode'' ''outputnode.bias_corrected_file''"
       "boundary_has_port sub ''outputnode'' ''outputnode.mask_file''"
       "boundary_has_port sub ''outputnode'' ''outputnode.skull_stripped_file''"
    using assms(5) by (simp_all add: boundary_has_port_def boundary_fields_def split: option.splits interface.splits)
  show ?thesis
    by (simp add: assms(1,2,3) bi bo Node_sel connect_def expand_def connect1_def add_member_def
        find_member_def input_connected_def node_has_port_def)
qed


lemma bold_reference_built:
  "\<exists>sub. init_enhance_and_skullstrip_bold_wf ''enhance_and_skullstrip_bold_wf'' omp_nthreads
           = Inr sub \<and>
     init_bold_reference_wf omp_nthreads bold_file name = Inr (Workflow name
       [MNode (if bold_file \<noteq> PNone
          then (Node (IdentityInterface [''bold_file'']) ''inputnode'')
                 \<lparr>inputs := [(''bold_file'', bold_file)]\<rparr>
          else Node (IdentityInterface [''bold_file'']) ''inputnode''),
        MNode ((Node (Interface ''ValidateImage'' []) ''validate'')\<lparr>mem_gb := Some (PFloat 1 (-2))\<rparr>),
        MNode ((Node (Interface ''EstimateReferenceImage'' []) ''gen_ref'')\<lparr>mem_gb := Some (PInt 1)\<rparr>),
        MWorkflow sub,
        MNode (Node (IdentityInterface [''bold_file'', ''raw_ref_image'', ''skip_vols'', ''ref_image'', ''ref_image_brain'', ''bold_mask'', ''validation_report'']) ''outputnode'')]
       [\<lparr>src = ''inputnode'', src_out = ''bold_file'', dst = ''validate'', dst_in = ''in_file''\<rparr>,
        \<lparr>src = ''validate'', src_out = ''out_file'', dst = ''gen_ref'', dst_in = ''in_file''\<rparr>,
        \<lparr>src = ''gen_ref'', src_out = ''ref_image'', dst = ''enhance_and_skullstrip_bold_wf'', dst_in = ''inputnode.in_file''\<rparr>,
        \<lparr>src = ''validate'', src_out = ''out_file'', dst = ''outputnode'', dst_in = ''bold_file''\<rparr>,
        \<lparr>src = ''validate'', src_out = ''out_report'', dst = ''outputnode'', dst_in = ''validation_report''\<rparr>,
        \<lparr>src = ''gen_ref'', src_out = ''ref_image'', dst = ''outputnode'', dst_in = ''raw_ref_image''\<rparr>,
        \<lparr>src = ''gen_ref'', src_out = ''n_volumes_to_discard'', dst = ''outputnode'', dst_in = ''skip_vols''\<rparr>,
        \<lparr>src = ''enhance_and_skullstrip_bold_wf'', src_out = ''outputnode.bias_corrected_file'', dst = ''outputnode'', dst_in = ''ref_image''\<rparr>,
        \<lparr>src = ''enhance_and_skullstrip_bold_wf'', src_out = ''outputnode.mask_file'', dst = ''outputnode'', dst_in = ''bold_mask''\<rparr>,
        \<lparr>src = ''enhance_and_skullstrip_bold_wf'', src_out = ''outputnode.skull_stripped_file'', dst = ''outputnode'', dst_in = ''ref_image_brain''\<rparr>])"
proof -
  obtain sub where sub:
    "init_enhance_and_skullstrip_bold_wf ''enhance_and_skullstrip_bold_wf'' omp_nthreads = Inr sub"
    "wf_name sub = ''enhance_and_skullstrip_bold_wf''"
    "boundary_fields sub ''inputnode'' = Some [''in_file'']"
    "boundary_fields sub ''outputnode'' =
       Some [''mask_file'', ''skull_stripped_file'', ''bias_corrected_file'']"
    by (simp add: enhance_built read_simps)
  let ?inp = "(if bold_file \<noteq> PNone
          then (Node (IdentityInterface [''bold_file'']) ''inputnode'')
                 \<lparr>inputs := [(''bold_file'', bold_file)]\<rparr>
          else Node (IdentityInterface [''bold_file'']) ''inputnode'')"
  have inp: "node_name ?inp = ''inputnode''" "interface ?inp = IdentityInterface [''bold_file'']"
    by (simp_all add: Node_sel)
  show ?thesis
    unfolding init_bold_reference_wf_def Let_def sub(1) sum.case DEFAULT_MEMORY_MIN_GB_def
    using bold_reference_connect [OF inp sub(2,3,4), of name] by simp
qed

subsection \<open>The outputs of the enhance-and-skullstrip workflow\<close>

text \<open>
  C8. For every \<open>name\<close> and \<open>omp_nthreads\<close>, the workflow returned by
  \<open>init_enhance_and_skullstrip_bold_wf\<close> has an \<open>outputnode\<close> with exactly the three
  fields \<open>mask_file\<close>, \<open>skull_stripped_file\<close> and \<open>bias_corrected_file\<close>; it exposes no
  \<open>out_report\<close> output; and each of the three fields is written by exactly one
  connection, so the connections into \<open>outputnode\<close> are these three and no other.
\<close>

theorem enhance_outputnode_fields:
  "\<exists>w. init_enhance_and_skullstrip_bold_wf name omp_nthreads = Inr w \<and>
     boundary_fields w ''outputnode'' =
       Some [''mask_file'', ''skull_stripped_file'', ''bias_corrected_file''] \<and>
     \<not> has_output (MWorkflow w) ''outputnode.out_report'' \<and>
     inbound w ''outputnode'' ''mask_file'' =
       [\<lparr>src = ''combine_masks'', src_out = ''out_file'',
         dst = ''outputnode'', dst_in = ''mask_file''\<rparr>] \<and>
     inbound w ''outputnode'' ''skull_stripped_file'' =
       [\<lparr>src = ''apply_mask'', src_out = ''out_file'',
         dst = ''outputnode'', dst_in = ''skull_stripped_file''\<rparr>] \<and>
     inbound w ''outputnode'' ''bias_corrected_file'' =
       [\<lparr>src = ''n4_correct'', src_out = ''output_image'',
         dst = ''outputnode'', dst_in = ''bias_corrected_file''\<rparr>] \<and>
     map dst_in (into w ''outputnode'') =
       [''mask_file'', ''skull_stripped_file'', ''bias_corrected_file'']"
  by (simp add: enhance_built read_simps boundary_has_port_def)

theorem enhance_outputnode_fields_witness:
  "\<exists>w. init_enhance_and_skullstrip_bold_wf ''enhance_and_skullstrip_bold_wf'' 1 = Inr w \<and>
     boundary_fields w ''outputnode'' =
       Some [''mask_file'', ''skull_stripped_file'', ''bias_corrected_file''] \<and>
     \<not> has_output (MWorkflow w) ''outputnode.out_report'' \<and>
     inbound w ''outputnode'' ''mask_file'' =
       [\<lparr>src = ''combine_masks'', src_out = ''out_file'',
         dst = ''outputnode'', dst_in = ''mask_file''\<rparr>] \<and>
     inbound w ''outputnode'' ''skull_stripped_file'' =
       [\<lparr>src = ''apply_mask'', src_out = ''out_file'',
         dst = ''outputnode'', dst_in = ''skull_stripped_file''\<rparr>] \<and>
     inbound w ''outputnode'' ''bias_corrected_file'' =
       [\<lparr>src = ''n4_correct'', src_out = ''output_image'',
         dst = ''outputnode'', dst_in = ''bias_corrected_file''\<rparr>] \<and>
     map dst_in (into w ''outputnode'') =
       [''mask_file'', ''skull_stripped_file'', ''bias_corrected_file'']"
  by (rule enhance_outputnode_fields)

subsection \<open>The thread count does not reach the enhance-and-skullstrip workflow\<close>

text \<open>
  C9. For any two values of \<open>omp_nthreads\<close>, \<open>init_enhance_and_skullstrip_bold_wf\<close> returns
  the same workflow (the same nodes, connections, literal inputs and resource hints), and
  the concurrency degree \<open>n_procs\<close> of its \<open>n4_correct\<close> node is one whatever
  \<open>omp_nthreads\<close> is.
\<close>

theorem enhance_ignores_omp_nthreads:
  "init_enhance_and_skullstrip_bold_wf name a = init_enhance_and_skullstrip_bold_wf name b \<and>
   (\<exists>w n. init_enhance_and_skullstrip_bold_wf name a = Inr w \<and>
      find_node w ''n4_correct'' = Some n \<and> n_procs n = Some 1)"
  by (simp add: enhance_built read_simps)

theorem enhance_ignores_omp_nthreads_witness:
  "init_enhance_and_skullstrip_bold_wf ''wf'' 1 = init_enhance_and_skullstrip_bold_wf ''wf'' 8 \<and>
   (\<exists>w n. init_enhance_and_skullstrip_bold_wf ''wf'' 1 = Inr w \<and>
      find_node w ''n4_correct'' = Some n \<and> n_procs n = Some 1)"
  by (rule enhance_ignores_omp_nthreads)

subsection \<open>One connection per input\<close>

text \<open>
  C4. In the connections declared by each of the three builders, no pair of destination
  member and destination input is written twice. In particular the two connections into
  each of \<open>fixhdr_unifize\<close>, \<open>bet_mask\<close> (the node named \<open>skullstrip_first_mask\<close>),
  \<open>combine_masks\<close> and \<open>apply_mask\<close> write two different inputs. Each builder
  therefore returns a workflow: \<open>connect\<close> raises no \<open>DuplicateInput\<close> (nor any other
  error).
\<close>

theorem builders_inputs_once:
  "(\<exists>w. init_bold_reference_wf omp_nthreads bold_file name = Inr w \<and> inputs_once w) \<and>
   (\<exists>w. init_enhance_and_skullstrip_bold_wf name' omp_nthreads' = Inr w \<and> inputs_once w \<and>
      map dst_in (into w ''fixhdr_unifize'') = [''hdr_file'', ''in_file''] \<and>
      map dst_in (into w ''skullstrip_first_mask'') = [''mask_file'', ''in_file''] \<and>
      map dst_in (into w ''combine_masks'') = [''in_file'', ''operand_file''] \<and>
      map dst_in (into w ''apply_mask'') = [''in_file'', ''mask_file'']) \<and>
   (\<exists>w. init_skullstrip_bold_wf name'' = Inr w \<and> inputs_once w \<and>
      map dst_in (into w ''combine_masks'') = [''in_file'', ''operand_file''] \<and>
      map dst_in (into w ''apply_mask'') = [''in_file'', ''mask_file''])"
proof -
  have a: "\<exists>w. init_bold_reference_wf omp_nthreads bold_file name = Inr w \<and> inputs_once w"
    using bold_reference_built [of omp_nthreads bold_file name]
    by (auto simp add: inputs_once_def)
  have b: "\<exists>w. init_enhance_and_skullstrip_bold_wf name' omp_nthreads' = Inr w \<and> inputs_once w \<and>
      map dst_in (into w ''fixhdr_unifize'') = [''hdr_file'', ''in_file''] \<and>
      map dst_in (into w ''skullstrip_first_mask'') = [''mask_file'', ''in_file''] \<and>
      map dst_in (into w ''combine_masks'') = [''in_file'', ''operand_file''] \<and>
      map dst_in (into w ''apply_mask'') = [''in_file'', ''mask_file'']"
    by (simp add: enhance_built inputs_once_def into_def)
  have c: "\<exists>w. init_skullstrip_bold_wf name'' = Inr w \<and> inputs_once w \<and>
      map dst_in (into w ''combine_masks'') = [''in_file'', ''operand_file''] \<and>
      map dst_in (into w ''apply_mask'') = [''in_file'', ''mask_file'']"
    by (simp add: skullstrip_built inputs_once_def into_def)
  from a b c show ?thesis by blast
qed

theorem builders_inputs_once_witness:
  "(\<exists>w. init_bold_reference_wf 1 (PStr ''bold.nii.gz'') ''bold_reference_wf'' = Inr w \<and> inputs_once w) \<and>
   (\<exists>w. init_enhance_and_skullstrip_bold_wf ''enhance_and_skullstrip_bold_wf'' 1 = Inr w \<and> inputs_once w \<and>
      map dst_in (into w ''fixhdr_unifize'') = [''hdr_file'', ''in_file''] \<and>
      map dst_in (into w ''skullstrip_first_mask'') = [''mask_file'', ''in_file''] \<and>
      map dst_in (into w ''combine_masks'') = [''in_file'', ''operand_file''] \<and>
      map dst_in (into w ''apply_mask'') = [''in_file'', ''mask_file'']) \<and>
   (\<exists>w. init_skullstrip_bold_wf ''skullstrip_bold_wf'' = Inr w \<and> inputs_once w \<and>
      map dst_in (into w ''combine_masks'') = [''in_file'', ''operand_file''] \<and>
      map dst_in (into w ''apply_mask'') = [''in_file'', ''mask_file''])"
  by (rule builders_inputs_once)

subsection \<open>Ports of the boundary nodes\<close>

lemma nested_enhance_facts:
  "\<exists>sub. init_enhance_and_skullstrip_bold_wf ''enhance_and_skullstrip_bold_wf'' omp_nthreads = Inr sub \<and>
     wf_name sub = ''enhance_and_skullstrip_bold_wf'' \<and>
     boundary_fields sub ''inputnode'' = Some [''in_file''] \<and>
     boundary_fields sub ''outputnode'' =
       Some [''mask_file'', ''skull_stripped_file'', ''bias_corrected_file'']"
  by (simp add: enhance_built read_simps)

lemma boundary_has_port_fields:
  "boundary_fields w b = Some fs \<Longrightarrow> split_port p = Some (b', f) \<Longrightarrow>
   boundary_has_port w b p \<longleftrightarrow> b' = b \<and> f \<in> set fs"
  by (auto simp add: boundary_has_port_def boundary_fields_def
      split: option.splits interface.splits)

text \<open>
  C5. In each of the three workflows every connection joins two members and names ports
  that exist wherever the module declares them: on the identity nodes \<open>inputnode\<close> and
  \<open>outputnode\<close>, and on the boundaries of the nested workflow. So \<open>connect\<close> raises no
  \<open>UnknownPort\<close> for a boundary endpoint. In \<open>init_bold_reference_wf\<close> each of the seven
  fields of \<open>outputnode\<close> is written by exactly one connection, the one that names it,
  and no other connection enters \<open>outputnode\<close>.
\<close>

theorem boundary_ports_declared:
  "(\<exists>w. init_bold_reference_wf omp_nthreads bold_file name = Inr w \<and> ports_declared w \<and>
      boundary_fields w ''inputnode'' = Some [''bold_file''] \<and>
      boundary_fields w ''outputnode'' =
        Some [''bold_file'', ''raw_ref_image'', ''skip_vols'', ''ref_image'',
              ''ref_image_brain'', ''bold_mask'', ''validation_report''] \<and>
      map (\<lambda>f. map (\<lambda>c. (src c, src_out c)) (inbound w ''outputnode'' f))
          [''bold_file'', ''raw_ref_image'', ''skip_vols'', ''ref_image'',
           ''ref_image_brain'', ''bold_mask'', ''validation_report''] =
        [[(''validate'', ''out_file'')],
         [(''gen_ref'', ''ref_image'')],
         [(''gen_ref'', ''n_volumes_to_discard'')],
         [(''enhance_and_skullstrip_bold_wf'', ''outputnode.bias_corrected_file'')],
         [(''enhance_and_skullstrip_bold_wf'', ''outputnode.skull_stripped_file'')],
         [(''enhance_and_skullstrip_bold_wf'', ''outputnode.mask_file'')],
         [(''validate'', ''out_report'')]] \<and>
      length (into w ''outputnode'') = 7) \<and>
   (\<exists>w. init_enhance_and_skullstrip_bold_wf name' omp_nthreads' = Inr w \<and> ports_declared w \<and>
      boundary_fields w ''inputnode'' = Some [''in_file''] \<and>
      boundary_fields w ''outputnode'' =
        Some [''mask_file'', ''skull_stripped_file'', ''bias_corrected_file'']) \<and>
   (\<exists>w. init_skullstrip_bold_wf name'' = Inr w \<and> ports_declared w \<and>
      boundary_fields w ''inputnode'' = Some [''in_file''] \<and>
      boundary_fields w ''outputnode'' =
        Some [''mask_file'', ''skull_stripped_file'', ''out_report''])"
proof -
  obtain sub where sub:
    "init_enhance_and_skullstrip_bold_wf ''enhance_and_skullstrip_bold_wf'' omp_nthreads = Inr sub"
    "wf_name sub = ''enhance_and_skullstrip_bold_wf''"
    "boundary_fields sub ''inputnode'' = Some [''in_file'']"
    "boundary_fields sub ''outputnode'' =
       Some [''mask_file'', ''skull_stripped_file'', ''bias_corrected_file'']"
    using nested_enhance_facts by blast
  have a: "\<exists>w. init_bold_reference_wf omp_nthreads bold_file name = Inr w \<and> ports_declared w \<and>
      boundary_fields w ''inputnode'' = Some [''bold_file''] \<and>
      boundary_fields w ''outputnode'' =
        Some [''bold_file'', ''raw_ref_image'', ''skip_vols'', ''ref_image'',
              ''ref_image_brain'', ''bold_mask'', ''validation_report''] \<and>
      map (\<lambda>f. map (\<lambda>c. (src c, src_out c)) (inbound w ''outputnode'' f))
          [''bold_file'', ''raw_ref_image'', ''skip_vols'', ''ref_image'',
           ''ref_image_brain'', ''bold_mask'', ''validation_report''] =
        [[(''validate'', ''out_file'')],
         [(''gen_ref'', ''ref_image'')],
         [(''gen_ref'', ''n_volumes_to_discard'')],
         [(''enhance_and_skullstrip_bold_wf'', ''outputnode.bias_corrected_file'')],
         [(''enhance_and_skullstrip_bold_wf'', ''outputnode.skull_stripped_file'')],
         [(''enhance_and_skullstrip_bold_wf'', ''outputnode.mask_file'')],
         [(''validate'', ''out_report'')]] \<and>
      length (into w ''outputnode'') = 7"
    using bold_reference_built [of omp_nthreads bold_file name] sub
    by (auto simp add: ports_declared_def read_simps node_has_port_def
        boundary_has_port_fields [OF sub(3)] boundary_has_port_fields [OF sub(4)])
  have b: "\<exists>w. init_enhance_and_skullstrip_bold_wf name' omp_nthreads' = Inr w \<and> ports_declared w \<and>
      boundary_fields w ''inputnode'' = Some [''in_file''] \<and>
      boundary_fields w ''outputnode'' =
        Some [''mask_file'', ''skull_stripped_file'', ''bias_corrected_file'']"
    by (simp add: enhance_built ports_declared_def read_simps node_has_port_def)
  have c: "\<exists>w. init_skullstrip_bold_wf name'' = Inr w \<and> ports_declared w \<and>
      boundary_fields w ''inputnode'' = Some [''in_file''] \<and>
      boundary_fields w ''outputnode'' =
        Some [''mask_file'', ''skull_stripped_file'', ''out_report'']"
    by (simp add: skullstrip_built ports_declared_def read_simps node_has_port_def)
  from a b c show ?thesis by blast
qed

theorem boundary_ports_declared_witness:
  "(\<exists>w. init_bold_reference_wf 1 (PStr ''bold.nii.gz'') ''bold_reference_wf'' = Inr w \<and> ports_declared w \<and>
      boundary_fields w ''inputnode'' = Some [''bold_file''] \<and>
      boundary_fields w ''outputnode'' =
        Some [''bold_file'', ''raw_ref_image'', ''skip_vols'', ''ref_image'',
              ''ref_image_brain'', ''bold_mask'', ''validation_report''] \<and>
      map (\<lambda>f. map (\<lambda>c. (src c, src_out c)) (inbound w ''outputnode'' f))
          [''bold_file'', ''raw_ref_image'', ''skip_vols'', ''ref_image'',
           ''ref_image_brain'', ''bold_mask'', ''validation_report''] =
        [[(''validate'', ''out_file'')],
         [(''gen_ref'', ''ref_image'')],
         [(''gen_ref'', ''n_volumes_to_discard'')],
         [(''enhance_and_skullstrip_bold_wf'', ''outputnode.bias_corrected_file'')],
         [(''enhance_and_skullstrip_bold_wf'', ''outputnode.skull_stripped_file'')],
         [(''enhance_and_skullstrip_bold_wf'', ''outputnode.mask_file'')],
         [(''validate'', ''out_report'')]] \<and>
      length (into w ''outputnode'') = 7) \<and>
   (\<exists>w. init_enhance_and_skullstrip_bold_wf ''enhance_and_skullstrip_bold_wf'' 1 = Inr w \<and> ports_declared w \<and>
      boundary_fields w ''inputnode'' = Some [''in_file''] \<and>
      boundary_fields w ''outputnode'' =
        Some [''mask_file'', ''skull_stripped_file'', ''bias_corrected_file'']) \<and>
   (\<exists>w. init_skullstrip_bold_wf ''skullstrip_bold_wf'' = Inr w \<and> ports_declared w \<and>
      boundary_fields w ''inputnode'' = Some [''in_file''] \<and>
      boundary_fields w ''outputnode'' =
        Some [''mask_file'', ''skull_stripped_file'', ''out_report''])"
  by (rule boundary_ports_declared)

subsection \<open>The nested workflow is reached through its boundaries\<close>

text \<open>
  C6. \<open>init_bold_reference_wf\<close> has one nested workflow, the one returned by
  \<open>init_enhance_and_skullstrip_bold_wf\<close>. The only connection into it targets field
  \<open>in_file\<close> of its \<open>inputnode\<close>; the connections out of it read the fields
  \<open>bias_corrected_file\<close>, \<open>mask_file\<close> and \<open>skull_stripped_file\<close> of its \<open>outputnode\<close>,
  which are declared there. Every connection of the parent joins two members of the
  parent, so none names an internal node of the nested workflow.
\<close>

theorem nested_workflow_through_boundaries:
  "\<exists>w sub. init_bold_reference_wf omp_nthreads bold_file name = Inr w \<and>
     init_enhance_and_skullstrip_bold_wf ''enhance_and_skullstrip_bold_wf'' omp_nthreads = Inr sub \<and>
     filter is_workflow (members w) = [MWorkflow sub] \<and>
     wf_name sub = ''enhance_and_skullstrip_bold_wf'' \<and>
     boundary_fields sub ''inputnode'' = Some [''in_file''] \<and>
     boundary_fields sub ''outputnode'' =
       Some [''mask_file'', ''skull_stripped_file'', ''bias_corrected_file''] \<and>
     map (\<lambda>c. (src c, src_out c, map_option fst (split_port (dst_in c)),
                 map_option snd (split_port (dst_in c))))
         (into w (wf_name sub)) =
       [(''gen_ref'', ''ref_image'', Some ''inputnode'', Some ''in_file'')] \<and>
     map (\<lambda>c. (map_option fst (split_port (src_out c)),
                 map_option snd (split_port (src_out c)), dst c, dst_in c))
         (out_of w (wf_name sub)) =
       [(Some ''outputnode'', Some ''bias_corrected_file'', ''outputnode'', ''ref_image''),
        (Some ''outputnode'', Some ''mask_file'', ''outputnode'', ''bold_mask''),
        (Some ''outputnode'', Some ''skull_stripped_file'', ''outputnode'', ''ref_image_brain'')] \<and>
     list_all (\<lambda>c. src c \<in> set (map member_name (members w)) \<and>
                     dst c \<in> set (map member_name (members w))) (connections w)"
proof -
  obtain sub where sub:
    "init_enhance_and_skullstrip_bold_wf ''enhance_and_skullstrip_bold_wf'' omp_nthreads = Inr sub"
    "wf_name sub = ''enhance_and_skullstrip_bold_wf''"
    "boundary_fields sub ''inputnode'' = Some [''in_file'']"
    "boundary_fields sub ''outputnode'' =
       Some [''mask_file'', ''skull_stripped_file'', ''bias_corrected_file'']"
    using nested_enhance_facts by blast
  show ?thesis
    using bold_reference_built [of omp_nthreads bold_file name] sub
    by (auto simp add: read_simps)
qed

theorem nested_workflow_through_boundaries_witness:
 "\<exists>w sub. init_bold_reference_wf 4 PNone ''bold_reference_wf'' = Inr w \<and>
     init_enhance_and_skullstrip_bold_wf ''enhance_and_skullstrip_bold_wf'' 4 = Inr sub \<and>
     filter is_workflow (members w) = [MWorkflow sub] \<and>
     wf_name sub = ''enhance_and_skullstrip_bold_wf'' \<and>
     boundary_fields sub ''inputnode'' = Some [''in_file''] \<and>
     boundary_fields sub ''outputnode'' =
       Some [''mask_file'', ''skull_stripped_file'', ''bias_corrected_file''] \<and>
     map (\<lambda>c. (src c, src_out c, map_option fst (split_port (dst_in c)),
                 map_option snd (split_port (dst_in c))))
         (into w (wf_name sub)) =
       [(''gen_ref'', ''ref_image'', Some ''inputnode'', Some ''in_file'')] \<and>
     map (\<lambda>c. (map_option fst (split_port (src_out c)),
                 map_option snd (split_port (src_out c)), dst c, dst_in c))
         (out_of w (wf_name sub)) =
       [(Some ''outputnode'', Some ''bias_corrected_file'', ''outputnode'', ''ref_image''),
        (Some ''outputnode'', Some ''mask_file'', ''outputnode'', ''bold_mask''),
        (Some ''outputnode'', Some ''skull_stripped_file'', ''outputnode'', ''ref_image_brain'')] \<and>
     list_all (\<lambda>c. src c \<in> set (map member_name (members w)) \<and>
                     dst c \<in> set (map member_name (members w))) (connections w)"
  by (rule nested_workflow_through_boundaries)

subsection \<open>The \<open>bold_file\<close> argument\<close>

text \<open>
  C10. With \<open>bold_file\<close> \<open>None\<close>, \<open>init_bold_reference_wf\<close> leaves the \<open>bold_file\<close> input of
  \<open>inputnode\<close> without a literal value; with any other value it binds that value as a
  literal input of \<open>inputnode\<close>. The two workflows differ in nothing else: same name,
  same connections, same members but for \<open>inputnode\<close>, whose name, interface and resource
  hints are the same too.
\<close>

theorem bold_file_only_binds_inputnode:
  assumes "bold_file \<noteq> PNone"
  shows "\<exists>w0 w1 n0 n1.
     init_bold_reference_wf omp_nthreads PNone name = Inr w0 \<and>
     init_bold_reference_wf omp_nthreads bold_file name = Inr w1 \<and>
     find_node w0 ''inputnode'' = Some n0 \<and>
     find_node w1 ''inputnode'' = Some n1 \<and>
     map_of (literal_inputs n0) ''bold_file'' = None \<and>
     map_of (literal_inputs n1) ''bold_file'' = Some bold_file \<and>
     n1 = n0\<lparr>inputs := [(''bold_file'', bold_file)]\<rparr> \<and>
     wf_name w1 = wf_name w0 \<and>
     connections w1 = connections w0 \<and>
     members w1 = map (\<lambda>m. if member_name m = ''inputnode'' then MNode n1 else m) (members w0)"
proof -
  obtain sub where sub:
    "init_enhance_and_skullstrip_bold_wf ''enhance_and_skullstrip_bold_wf'' omp_nthreads = Inr sub"
    "wf_name sub = ''enhance_and_skullstrip_bold_wf''"
    using nested_enhance_facts by blast
  show ?thesis
    using bold_reference_built [of omp_nthreads bold_file name]
      bold_reference_built [of omp_nthreads PNone name] sub assms
    by (auto simp add: read_simps literal_inputs_def)
qed

theorem bold_file_only_binds_inputnode_witness:
  "PStr ''sub-01_bold.nii.gz'' \<noteq> PNone \<and>
   (\<exists>w0 w1 n0 n1.
     init_bold_reference_wf 1 PNone ''bold_reference_wf'' = Inr w0 \<and>
     init_bold_reference_wf 1 (PStr ''sub-01_bold.nii.gz'') ''bold_reference_wf'' = Inr w1 \<and>
     find_node w0 ''inputnode'' = Some n0 \<and>
     find_node w1 ''inputnode'' = Some n1 \<and>
     map_of (literal_inputs n0) ''bold_file'' = None \<and>
     map_of (literal_inputs n1) ''bold_file'' = Some (PStr ''sub-01_bold.nii.gz'') \<and>
     n1 = n0\<lparr>inputs := [(''bold_file'', PStr ''sub-01_bold.nii.gz'')]\<rparr> \<and>
     wf_name w1 = wf_name w0 \<and>
     connections w1 = connections w0 \<and>
     members w1 = map (\<lambda>m. if member_name m = ''inputnode'' then MNode n1 else m) (members w0))"
proof -
  have h: "PStr ''sub-01_bold.nii.gz'' \<noteq> PNone" by simp
  show ?thesis
    by (rule conjI [OF h bold_file_only_binds_inputnode [OF h]])
qed

subsection \<open>The two branches into \<open>combine_masks\<close>\<close>

lemma rank_trancl:
  assumes "\<And>u v. (u, v) \<in> E \<Longrightarrow> r u < (r v :: nat)" and "(a, b) \<in> E\<^sup>+"
  shows "r a < r b"
  using assms(2)
proof (induction rule: trancl.induct)
  case (r_into_trancl a b)
  then show ?case by (rule assms(1))
next
  case (trancl_into_trancl a b c)
  from assms(1) [OF trancl_into_trancl.hyps(2)] trancl_into_trancl.IH
  show ?case by (rule less_trans [rotated])
qed

lemma forward_in_trancl:
  assumes "forward_in seq w" and "(a, b) \<in> (edges w)\<^sup>+"
  shows "position seq a < position seq b"
proof (rule rank_trancl [OF _ assms(2)])
  fix u v assume "(u, v) \<in> edges w"
  with assms(1) show "position seq u < position seq v"
    by (auto simp add: forward_in_def edges_def list_all_iff)
qed

lemma forward_in_not_depends:
  assumes "forward_in seq w" and "position seq a \<le> position seq b"
  shows "\<not> depends_on w a b"
  using forward_in_trancl [OF assms(1), of b a] assms(2)
  by (auto simp add: depends_on_def)

lemma skullstrip_ok: "\<exists>w. init_skullstrip_bold_wf name = Inr w"
  by (simp add: skullstrip_built)

lemma skullstrip_graph:
  assumes "init_skullstrip_bold_wf name = Inr w"
  shows "map member_name (members w) =
       [''inputnode'', ''skullstrip_first_pass'', ''skullstrip_second_pass'',
        ''combine_masks'', ''outputnode'', ''apply_mask'', ''mask_reportlet'']"
    and "edge_list w =
      [(''inputnode'', ''skullstrip_first_pass''),
       (''skullstrip_first_pass'', ''skullstrip_second_pass''),
       (''skullstrip_first_pass'', ''combine_masks''),
       (''skullstrip_second_pass'', ''combine_masks''),
       (''combine_masks'', ''outputnode''),
       (''inputnode'', ''apply_mask''),
       (''combine_masks'', ''apply_mask''),
       (''apply_mask'', ''outputnode''),
       (''inputnode'', ''mask_reportlet''),
       (''combine_masks'', ''mask_reportlet''),
       (''mask_reportlet'', ''outputnode'')]"
    and "map src (into w ''combine_masks'') =
       [''skullstrip_first_pass'', ''skullstrip_second_pass'']"
  using assms by (clarsimp simp add: skullstrip_built edge_list_def into_def Node_sel)+

lemma skullstrip_second_pass_depends:
  "\<exists>w. init_skullstrip_bold_wf name = Inr w \<and>
      map src (into w ''combine_masks'') = [''skullstrip_first_pass'', ''skullstrip_second_pass''] \<and>
      depends_on w ''skullstrip_second_pass'' ''skullstrip_first_pass'' \<and>
      \<not> depends_on w ''skullstrip_first_pass'' ''skullstrip_second_pass''"
proof -
  obtain w where w: "init_skullstrip_bold_wf name = Inr w"
    using skullstrip_ok by blast
  note es = skullstrip_graph(2) [OF w] and feed = skullstrip_graph(3) [OF w]
  have "(''skullstrip_first_pass'', ''skullstrip_second_pass'') \<in> edges w"
    by (simp add: edges_def es)
  then have d: "depends_on w ''skullstrip_second_pass'' ''skullstrip_first_pass''"
    unfolding depends_on_def by (rule r_into_trancl)
  let ?seq = "[''inputnode'', ''skullstrip_first_pass'', ''skullstrip_second_pass'',
     ''combine_masks'', ''apply_mask'', ''mask_reportlet'', ''outputnode'']"
  have f: "forward_in ?seq w"
    by (simp add: forward_in_def es position_def)
  have n: "\<not> depends_on w ''skullstrip_first_pass'' ''skullstrip_second_pass''"
    by (rule forward_in_not_depends [OF f]) (simp add: position_def)
  show ?thesis
    by (rule exI [of _ w]) (intro conjI w feed d n)
qed


lemma enhance_ok: "\<exists>w. init_enhance_and_skullstrip_bold_wf name omp_nthreads = Inr w"
  by (simp add: enhance_built)

lemma enhance_graph:
  assumes "init_enhance_and_skullstrip_bold_wf name omp_nthreads = Inr w"
  shows "map member_name (members w) =
       [''inputnode'',
        ''n4_mask'',
        ''n4_correct'',
        ''fixhdr_unifize'',
        ''fixhdr_skullstrip2'',
        ''skullstrip_first_pass'',
        ''skullstrip_first_dilate'',
        ''skullstrip_first_mask'',
        ''unifize'',
        ''skullstrip_second_pass'',
        ''combine_masks'',
        ''apply_mask'',
        ''outputnode'']"
    and "edge_list w =
      [(''inputnode'', ''n4_mask''),
       (''inputnode'', ''n4_correct''),
       (''inputnode'', ''fixhdr_unifize''),
       (''inputnode'', ''fixhdr_skullstrip2''),
       (''n4_mask'', ''n4_correct''),
       (''n4_correct'', ''skullstrip_first_pass''),
       (''skullstrip_first_pass'', ''skullstrip_first_dilate''),
       (''skullstrip_first_dilate'', ''skullstrip_first_mask''),
       (''skullstrip_first_pass'', ''skullstrip_first_mask''),
       (''skullstrip_first_mask'', ''unifize''),
       (''unifize'', ''fixhdr_unifize''),
       (''fixhdr_unifize'', ''skullstrip_second_pass''),
       (''skullstrip_first_pass'', ''combine_masks''),
       (''skullstrip_second_pass'', ''fixhdr_skullstrip2''),
       (''fixhdr_skullstrip2'', ''combine_masks''),
       (''fixhdr_unifize'', ''apply_mask''),
       (''combine_masks'', ''apply_mask''),
       (''combine_masks'', ''outputnode''),
       (''apply_mask'', ''outputnode''),
       (''n4_correct'', ''outputnode'')]"
    and "map src (into w ''combine_masks'') =
       [''skullstrip_first_pass'', ''fixhdr_skullstrip2'']"
  using assms by (clarsimp simp add: enhance_built edge_list_def into_def Node_sel)+

lemma enhance_second_pass_depends:
  "\<exists>w. init_enhance_and_skullstrip_bold_wf name omp_nthreads = Inr w \<and>
      map src (into w ''combine_masks'') = [''skullstrip_first_pass'', ''fixhdr_skullstrip2''] \<and>
      depends_on w ''fixhdr_skullstrip2'' ''skullstrip_first_pass'' \<and>
      \<not> depends_on w ''skullstrip_first_pass'' ''fixhdr_skullstrip2''"
proof -
  obtain w where w: "init_enhance_and_skullstrip_bold_wf name omp_nthreads = Inr w"
    using enhance_ok by blast
  note es = enhance_graph(2) [OF w] and feed = enhance_graph(3) [OF w]
  have "(''skullstrip_first_pass'', ''skullstrip_first_mask'') \<in> edges w"
    by (simp add: edges_def es)
  then have "(''skullstrip_first_pass'', ''skullstrip_first_mask'') \<in> (edges w)\<^sup>+"
    by (rule r_into_trancl)
  moreover have "(''skullstrip_first_mask'', ''unifize'') \<in> edges w"
    by (simp add: edges_def es)
  ultimately have "(''skullstrip_first_pass'', ''unifize'') \<in> (edges w)\<^sup>+"
    by (rule trancl_into_trancl)
  moreover have "(''unifize'', ''fixhdr_unifize'') \<in> edges w"
    by (simp add: edges_def es)
  ultimately have "(''skullstrip_first_pass'', ''fixhdr_unifize'') \<in> (edges w)\<^sup>+"
    by (rule trancl_into_trancl)
  moreover have "(''fixhdr_unifize'', ''skullstrip_second_pass'') \<in> edges w"
    by (simp add: edges_def es)
  ultimately have "(''skullstrip_first_pass'', ''skullstrip_second_pass'') \<in> (edges w)\<^sup>+"
    by (rule trancl_into_trancl)
  moreover have "(''skullstrip_second_pass'', ''fixhdr_skullstrip2'') \<in> edges w"
    by (simp add: edges_def es)
  ultimately have "(''skullstrip_first_pass'', ''fixhdr_skullstrip2'') \<in> (edges w)\<^sup>+"
    by (rule trancl_into_trancl)
  then have d: "depends_on w ''fixhdr_skullstrip2'' ''skullstrip_first_pass''"
    by (simp add: depends_on_def)
  let ?seq = "[''inputnode'', ''n4_mask'', ''n4_correct'', ''skullstrip_first_pass'',
     ''skullstrip_first_dilate'', ''skullstrip_first_mask'', ''unifize'', ''fixhdr_unifize'',
     ''skullstrip_second_pass'', ''fixhdr_skullstrip2'', ''combine_masks'', ''apply_mask'',
     ''outputnode'']"
  have f: "forward_in ?seq w"
    by (simp add: forward_in_def es position_def)
  have n: "\<not> depends_on w ''skullstrip_first_pass'' ''fixhdr_skullstrip2''"
    by (rule forward_in_not_depends [OF f]) (simp add: position_def)
  show ?thesis
    by (rule exI [of _ w]) (intro conjI w feed d n)
qed

text \<open>
  C1 as stated fails: in \<open>init_skullstrip_bold_wf\<close> the two members that feed
  \<open>combine_masks\<close> are \<open>skullstrip_first_pass\<close> and \<open>skullstrip_second_pass\<close>, and the
  second takes its \<open>in_file\<close> from the \<open>out_file\<close> of the first, so it depends on it.
\<close>

theorem branches_not_independent:
  "\<exists>w. init_skullstrip_bold_wf ''skullstrip_bold_wf'' = Inr w \<and>
     map src (into w ''combine_masks'') =
       [''skullstrip_first_pass'', ''skullstrip_second_pass''] \<and>
     depends_on w ''skullstrip_second_pass'' ''skullstrip_first_pass'' \<and>
     \<not> branches_independent w ''combine_masks''"
proof -
  obtain w where w: "init_skullstrip_bold_wf ''skullstrip_bold_wf'' = Inr w"
    and feed: "map src (into w ''combine_masks'') =
       [''skullstrip_first_pass'', ''skullstrip_second_pass'']"
    and d: "depends_on w ''skullstrip_second_pass'' ''skullstrip_first_pass''"
    using skullstrip_second_pass_depends [of "''skullstrip_bold_wf''"]
    by (elim exE conjE)
  have "\<not> branches_independent w ''combine_masks''"
    using d by (simp add: branches_independent_def feed)
  with w feed d show ?thesis
    by (intro exI [of _ w] conjI)
qed

text \<open>
  C1, amended. In both pipelines that recombine two masks in \<open>combine_masks\<close>
  (\<open>init_enhance_and_skullstrip_bold_wf\<close> and \<open>init_skullstrip_bold_wf\<close>), the two members
  that feed \<open>combine_masks\<close> are ordered by the declared connections: the second-pass
  branch (\<open>fixhdr_skullstrip2\<close>, respectively \<open>skullstrip_second_pass\<close>) depends on
  \<open>skullstrip_first_pass\<close>, and \<open>skullstrip_first_pass\<close> does not depend on the second-pass
  branch. The only ordering between the two branches is this declared one.
\<close>

theorem second_pass_branch_depends_on_first:
  "(\<exists>w. init_enhance_and_skullstrip_bold_wf name omp_nthreads = Inr w \<and>
      map src (into w ''combine_masks'') = [''skullstrip_first_pass'', ''fixhdr_skullstrip2''] \<and>
      depends_on w ''fixhdr_skullstrip2'' ''skullstrip_first_pass'' \<and>
      \<not> depends_on w ''skullstrip_first_pass'' ''fixhdr_skullstrip2'') \<and>
   (\<exists>w. init_skullstrip_bold_wf name' = Inr w \<and>
      map src (into w ''combine_masks'') = [''skullstrip_first_pass'', ''skullstrip_second_pass''] \<and>
      depends_on w ''skullstrip_second_pass'' ''skullstrip_first_pass'' \<and>
      \<not> depends_on w ''skullstrip_first_pass'' ''skullstrip_second_pass'')"
  by (rule conjI [OF enhance_second_pass_depends skullstrip_second_pass_depends])

theorem second_pass_branch_depends_on_first_witness:
  "(\<exists>w. init_enhance_and_skullstrip_bold_wf ''enhance_and_skullstrip_bold_wf'' 1 = Inr w \<and>
      map src (into w ''combine_masks'') = [''skullstrip_first_pass'', ''fixhdr_skullstrip2''] \<and>
      depends_on w ''fixhdr_skullstrip2'' ''skullstrip_first_pass'' \<and>
      \<not> depends_on w ''skullstrip_first_pass'' ''fixhdr_skullstrip2'') \<and>
   (\<exists>w. init_skullstrip_bold_wf ''skullstrip_bold_wf'' = Inr w \<and>
      map src (into w ''combine_masks'') = [''skullstrip_first_pass'', ''skullstrip_second_pass''] \<and>
      depends_on w ''skullstrip_second_pass'' ''skullstrip_first_pass'' \<and>
      \<not> depends_on w ''skullstrip_first_pass'' ''skullstrip_second_pass'')"
  by (rule second_pass_branch_depends_on_first)

subsection \<open>Planning\<close>

text \<open>
  The planner succeeds on every graph whose connections all go forward in some order of
  its members: it returns an order of exactly the members in which every connection goes
  forward.
\<close>

lemma position_append_in: "x \<in> set xs \<Longrightarrow> position (xs @ ys) x = position xs x"
  by (simp add: position_def)

lemma position_less: "x \<in> set xs \<Longrightarrow> position xs x < length xs"
  unfolding position_def by (induction xs) auto

lemma position_append_new: "x \<notin> set xs \<Longrightarrow> position (xs @ [x]) x = length xs"
  unfolding position_def by (induction xs) auto

lemma exists_ready:
  assumes fwd: "\<And>u v. (u, v) \<in> set es \<Longrightarrow> r u < (r v :: nat)" and ne: "todo \<noteq> []"
  shows "\<exists>x. find (ready es todo) todo = Some x \<and> x \<in> set todo \<and> ready es todo x"
proof -
  let ?m = "arg_min_list r todo"
  have m_in: "?m \<in> set todo" using ne by (rule arg_min_list_in)
  have m_min: "\<And>y. y \<in> set todo \<Longrightarrow> r ?m \<le> r y"
    using ne by (simp add: f_arg_min_list_f)
  have "ready es todo ?m"
    unfolding ready_def list_all_iff
  proof (clarify)
    fix u assume e: "(u, ?m) \<in> set es" and u: "u \<in> set todo"
    from fwd [OF e] m_min [OF u] show False by simp
  qed
  with m_in have "find (ready es todo) todo \<noteq> None"
    by (auto simp add: find_None_iff)
  then obtain x where x: "find (ready es todo) todo = Some x" by auto
  then have "x \<in> set todo \<and> ready es todo x"
    by (auto simp add: find_Some_iff)
  with x show ?thesis by blast
qed

lemma topo_complete:
  assumes fwd: "\<And>u v. (u, v) \<in> set es \<Longrightarrow> r u < (r v :: nat)"
    and dist: "distinct (placed @ todo)"
    and mem: "\<And>u v. (u, v) \<in> set es \<Longrightarrow> u \<in> set (placed @ todo) \<and> v \<in> set (placed @ todo)"
    and inv: "\<And>u v. (u, v) \<in> set es \<Longrightarrow> v \<in> set placed \<Longrightarrow>
                u \<in> set placed \<and> position placed u < position placed v"
  shows "\<exists>seq. topo es todo placed = Inr seq \<and> set seq = set (placed @ todo) \<and>
           distinct seq \<and> (\<forall>(u, v) \<in> set es. position seq u < position seq v)"
  using dist mem inv
proof (induction "length todo" arbitrary: todo placed)
  case 0
  then have [simp]: "todo = []" by simp
  have "\<forall>(u, v) \<in> set es. position placed u < position placed v"
    using "0.prems"(2,3) by fastforce
  with "0.prems"(1) show ?case by simp
next
  case (Suc n)
  then have ne: "todo \<noteq> []" by auto
  from exists_ready [where r = r and es = es, OF fwd ne] obtain x
    where x: "find (ready es todo) todo = Some x" "x \<in> set todo" "ready es todo x"
    by blast
  let ?todo = "remove1 x todo" and ?placed = "placed @ [x]"
  have xp: "x \<notin> set placed" using Suc.prems(1) x(2) by auto
  have dt: "distinct todo" using Suc.prems(1) by simp
  have sets: "set (?placed @ ?todo) = set (placed @ todo)"
    using x(2) dt by auto
  have len: "n = length ?todo"
    using Suc.hyps(2) x(2) by (simp add: length_remove1)
  have d': "distinct (?placed @ ?todo)"
    using Suc.prems(1) x(2) by auto
  have m': "\<And>u v. (u, v) \<in> set es \<Longrightarrow>
      u \<in> set (?placed @ ?todo) \<and> v \<in> set (?placed @ ?todo)"
    unfolding sets by (rule Suc.prems(2))
  have i': "\<And>u v. (u, v) \<in> set es \<Longrightarrow> v \<in> set ?placed \<Longrightarrow>
      u \<in> set ?placed \<and> position ?placed u < position ?placed v"
  proof -
    fix u v assume e: "(u, v) \<in> set es" and v: "v \<in> set ?placed"
    show "u \<in> set ?placed \<and> position ?placed u < position ?placed v"
    proof (cases "v \<in> set placed")
      case True
      from Suc.prems(3) [OF e True] True show ?thesis
        by (simp add: position_append_in)
    next
      case False
      with v have vx: "v = x" by simp
      from x(3) e vx have "u \<notin> set todo"
        by (auto simp add: ready_def list_all_iff)
      with Suc.prems(2) [OF e] have u: "u \<in> set placed" by simp
      then show ?thesis
        using xp vx by (simp add: position_append_in position_append_new position_less)
    qed
  qed
  from Suc.hyps(1) [OF len d' m' i'] obtain seq where
    "topo es ?todo ?placed = Inr seq" "set seq = set (?placed @ ?todo)" "distinct seq"
    "\<forall>(u, v) \<in> set es. position seq u < position seq v"
    by blast
  moreover have "topo es todo placed = topo es ?todo ?placed"
    using ne x(1) by (subst topo.simps) simp
  ultimately show ?case unfolding sets by auto
qed


lemma forward_in_acyclic:
  assumes "forward_in seq w"
  shows "acyclic (edges w)"
proof (rule acyclicI, rule allI, rule notI)
  fix x assume "(x, x) \<in> (edges w)\<^sup>+"
  from forward_in_trancl [OF assms this] show False by simp
qed

lemma plan_complete:
  assumes fwd: "forward_in seq0 w"
    and dist: "distinct (map member_name (members w))"
    and mem: "list_all (\<lambda>(u, v). u \<in> set (map member_name (members w)) \<and>
                 v \<in> set (map member_name (members w))) (edge_list w)"
  shows "\<exists>seq. plan w = Inr seq \<and> set seq = set (map member_name (members w)) \<and>
           distinct seq \<and> forward_in seq w"
proof -
  let ?ms = "map member_name (members w)" and ?es = "edge_list w"
  have r: "\<And>u v. (u, v) \<in> set ?es \<Longrightarrow> position seq0 u < position seq0 v"
    using fwd by (auto simp add: forward_in_def list_all_iff)
  have d: "distinct ([] @ ?ms)" using dist by simp
  have m: "\<And>u v. (u, v) \<in> set ?es \<Longrightarrow> u \<in> set ([] @ ?ms) \<and> v \<in> set ([] @ ?ms)"
    using mem by (auto simp add: list_all_iff)
  have i: "\<And>u v. (u, v) \<in> set ?es \<Longrightarrow> v \<in> set [] \<Longrightarrow>
      u \<in> set [] \<and> position [] u < position [] v"
    by simp
  from topo_complete [where r = "position seq0" and es = ?es, OF r d m i]
  show ?thesis
    by (simp add: plan_def forward_in_def list_all_iff)
qed

lemma bold_reference_ok: "\<exists>w. init_bold_reference_wf omp_nthreads bold_file name = Inr w"
  using bold_reference_built [of omp_nthreads bold_file name] by (elim exE conjE) (rule exI)

lemma bold_reference_graph:
  assumes "init_bold_reference_wf omp_nthreads bold_file name = Inr w"
  shows "map member_name (members w) =
       [''inputnode'', ''validate'', ''gen_ref'', ''enhance_and_skullstrip_bold_wf'', ''outputnode'']"
    and "edge_list w =
      [(''inputnode'', ''validate''),
       (''validate'', ''gen_ref''),
       (''gen_ref'', ''enhance_and_skullstrip_bold_wf''),
       (''validate'', ''outputnode''),
       (''validate'', ''outputnode''),
       (''gen_ref'', ''outputnode''),
       (''gen_ref'', ''outputnode''),
       (''enhance_and_skullstrip_bold_wf'', ''outputnode''),
       (''enhance_and_skullstrip_bold_wf'', ''outputnode''),
       (''enhance_and_skullstrip_bold_wf'', ''outputnode'')]"
  using assms bold_reference_built [of omp_nthreads bold_file name]
    nested_enhance_facts [of omp_nthreads]
  by (clarsimp simp add: edge_list_def Node_sel)+


lemma skullstrip_planned:
  "\<exists>w seq. init_skullstrip_bold_wf name = Inr w \<and> acyclic (edges w) \<and> plan w = Inr seq \<and>
     set seq = set (map member_name (members w)) \<and> distinct seq \<and> forward_in seq w"
proof -
  obtain w where w: "init_skullstrip_bold_wf name = Inr w"
    using skullstrip_ok by blast
  note ms = skullstrip_graph(1) [OF w] and es = skullstrip_graph(2) [OF w]
  let ?seq0 = "[''inputnode'', ''skullstrip_first_pass'', ''skullstrip_second_pass'',
     ''combine_masks'', ''apply_mask'', ''mask_reportlet'', ''outputnode'']"
  have f: "forward_in ?seq0 w"
    by (simp add: forward_in_def es position_def)
  have d: "distinct (map member_name (members w))"
    by (simp add: ms)
  have m: "list_all (\<lambda>(u, v). u \<in> set (map member_name (members w)) \<and>
             v \<in> set (map member_name (members w))) (edge_list w)"
    by (simp add: ms es)
  from plan_complete [OF f d m] obtain seq where seq: "plan w = Inr seq"
    "set seq = set (map member_name (members w))" "distinct seq" "forward_in seq w"
    by (elim exE conjE)
  show ?thesis
    by (rule exI [of _ w], rule exI [of _ seq]) (intro conjI w forward_in_acyclic [OF f] seq)
qed

lemma enhance_planned:
  "\<exists>w seq. init_enhance_and_skullstrip_bold_wf name omp_nthreads = Inr w \<and> acyclic (edges w) \<and> plan w = Inr seq \<and>
     set seq = set (map member_name (members w)) \<and> distinct seq \<and> forward_in seq w"
proof -
  obtain w where w: "init_enhance_and_skullstrip_bold_wf name omp_nthreads = Inr w"
    using enhance_ok by blast
  note ms = enhance_graph(1) [OF w] and es = enhance_graph(2) [OF w]
  let ?seq0 = "[''inputnode'', ''n4_mask'', ''n4_correct'', ''skullstrip_first_pass'',
     ''skullstrip_first_dilate'', ''skullstrip_first_mask'', ''unifize'', ''fixhdr_unifize'',
     ''skullstrip_second_pass'', ''fixhdr_skullstrip2'', ''combine_masks'', ''apply_mask'',
     ''outputnode'']"
  have f: "forward_in ?seq0 w"
    by (simp add: forward_in_def es position_def)
  have d: "distinct (map member_name (members w))"
    by (simp add: ms)
  have m: "list_all (\<lambda>(u, v). u \<in> set (map member_name (members w)) \<and>
             v \<in> set (map member_name (members w))) (edge_list w)"
    by (simp add: ms es)
  from plan_complete [OF f d m] obtain seq where seq: "plan w = Inr seq"
    "set seq = set (map member_name (members w))" "distinct seq" "forward_in seq w"
    by (elim exE conjE)
  show ?thesis
    by (rule exI [of _ w], rule exI [of _ seq]) (intro conjI w forward_in_acyclic [OF f] seq)
qed

lemma bold_reference_planned:
  "\<exists>w seq. init_bold_reference_wf omp_nthreads bold_file name = Inr w \<and> acyclic (edges w) \<and> plan w = Inr seq \<and>
     set seq = set (map member_name (members w)) \<and> distinct seq \<and> forward_in seq w"
proof -
  obtain w where w: "init_bold_reference_wf omp_nthreads bold_file name = Inr w"
    using bold_reference_ok by blast
  note ms = bold_reference_graph(1) [OF w] and es = bold_reference_graph(2) [OF w]
  let ?seq0 = "[''inputnode'', ''validate'', ''gen_ref'', ''enhance_and_skullstrip_bold_wf'',
     ''outputnode'']"
  have f: "forward_in ?seq0 w"
    by (simp add: forward_in_def es position_def)
  have d: "distinct (map member_name (members w))"
    by (simp add: ms)
  have m: "list_all (\<lambda>(u, v). u \<in> set (map member_name (members w)) \<and>
             v \<in> set (map member_name (members w))) (edge_list w)"
    by (simp add: ms es)
  from plan_complete [OF f d m] obtain seq where seq: "plan w = Inr seq"
    "set seq = set (map member_name (members w))" "distinct seq" "forward_in seq w"
    by (elim exE conjE)
  show ?thesis
    by (rule exI [of _ w], rule exI [of _ seq]) (intro conjI w forward_in_acyclic [OF f] seq)
qed

text \<open>
  C3. For every choice of arguments, each of the three workflows induces an acyclic graph
  over its members and connections, and planning it does not fail with \<open>CycleDetected\<close>:
  it returns an order of exactly the members of the workflow, each once, in which the
  source of every connection precedes its destination.
\<close>

theorem workflows_acyclic_and_planned:
  "(\<exists>w seq. init_bold_reference_wf omp_nthreads bold_file name = Inr w \<and>
      acyclic (edges w) \<and> plan w = Inr seq \<and>
      set seq = set (map member_name (members w)) \<and> distinct seq \<and> forward_in seq w) \<and>
   (\<exists>w seq. init_enhance_and_skullstrip_bold_wf name' omp_nthreads' = Inr w \<and>
      acyclic (edges w) \<and> plan w = Inr seq \<and>
      set seq = set (map member_name (members w)) \<and> distinct seq \<and> forward_in seq w) \<and>
   (\<exists>w seq. init_skullstrip_bold_wf name'' = Inr w \<and>
      acyclic (edges w) \<and> plan w = Inr seq \<and>
      set seq = set (map member_name (members w)) \<and> distinct seq \<and> forward_in seq w)"
  by (intro conjI bold_reference_planned enhance_planned skullstrip_planned)

theorem workflows_acyclic_and_planned_witness:
  "(\<exists>w seq. init_bold_reference_wf 1 PNone ''bold_reference_wf'' = Inr w \<and>
      acyclic (edges w) \<and> plan w = Inr seq \<and>
      set seq = set (map member_name (members w)) \<and> distinct seq \<and> forward_in seq w) \<and>
   (\<exists>w seq. init_enhance_and_skullstrip_bold_wf ''enhance_and_skullstrip_bold_wf'' 1 = Inr w \<and>
      acyclic (edges w) \<and> plan w = Inr seq \<and>
      set seq = set (map member_name (members w)) \<and> distinct seq \<and> forward_in seq w) \<and>
   (\<exists>w seq. init_skullstrip_bold_wf ''skullstrip_bold_wf'' = Inr w \<and>
      acyclic (edges w) \<and> plan w = Inr seq \<and>
      set seq = set (map member_name (members w)) \<and> distinct seq \<and> forward_in seq w)"
  by (rule workflows_acyclic_and_planned)

text \<open>
  The executor plans the flattened graph. For \<open>init_bold_reference_wf\<close> with its default
  name and no \<open>bold_file\<close>, flattening leaves the four nodes of the parent and the
  eleven inner nodes of the nested workflow, without its two boundary nodes, and the
  planner orders them.
\<close>

lemma bold_reference_flat_plan:
  "(case init_bold_reference_wf 1 PNone ''bold_reference_wf'' of
      Inl e \<Rightarrow> Inl e | Inr w \<Rightarrow> plan (flatten w)) = Inr [''inputnode'', ''validate'', ''gen_ref'',
      ''enhance_and_skullstrip_bold_wf.n4_mask'',
      ''enhance_and_skullstrip_bold_wf.n4_correct'',
      ''enhance_and_skullstrip_bold_wf.skullstrip_first_pass'',
      ''enhance_and_skullstrip_bold_wf.skullstrip_first_dilate'',
      ''enhance_and_skullstrip_bold_wf.skullstrip_first_mask'',
      ''enhance_and_skullstrip_bold_wf.unifize'',
      ''enhance_and_skullstrip_bold_wf.fixhdr_unifize'',
      ''enhance_and_skullstrip_bold_wf.skullstrip_second_pass'',
      ''enhance_and_skullstrip_bold_wf.fixhdr_skullstrip2'',
      ''enhance_and_skullstrip_bold_wf.combine_masks'',
      ''enhance_and_skullstrip_bold_wf.apply_mask'', ''outputnode'']"
  by code_simp

subsection \<open>Running twice\<close>

lemma exec_node_clean_back:
  assumes "failed (exec_node work ov g s x) = []" and "blocked (exec_node work ov g s x) = []"
  shows "failed s = []" and "blocked s = []"
  using assms
  by (auto simp add: exec_node_def Let_def split: option.splits entry.splits sum.splits)

lemma exec_clean_back:
  assumes "failed (foldl (exec_node work ov g) s xs) = []"
    and "blocked (foldl (exec_node work ov g) s xs) = []"
  shows "failed s = [] \<and> blocked s = []"
  using assms
proof (induction xs arbitrary: s)
  case Nil
  then show ?case by simp
next
  case (Cons x xs)
  from Cons.IH [of "exec_node work ov g s x"] Cons.prems
  have "failed (exec_node work ov g s x) = [] \<and> blocked (exec_node work ov g s x) = []"
    by simp
  then show ?case using exec_node_clean_back [of work ov g s x] by blast
qed

lemma exec_node_keeps_entry:
  assumes "cache s fp = Some (Entry outs)"
  shows "cache (exec_node work ov g s x) fp = Some (Entry outs)"
  using assms
  by (auto simp add: exec_node_def Let_def split: option.splits entry.splits sum.splits)

lemma exec_keeps_entry:
  assumes "cache s fp = Some (Entry outs)"
  shows "cache (foldl (exec_node work ov g) s xs) fp = Some (Entry outs)"
  using assms
  by (induction xs arbitrary: s) (simp_all add: exec_node_keeps_entry)

text \<open>A step that neither fails nor blocks completes its node and leaves a cache entry.\<close>

lemma exec_node_completes:
  assumes "failed (exec_node work ov g s x) = []" and "blocked (exec_node work ov g s x) = []"
  shows "\<exists>n vs outs.
     find_node g x = Some n \<and>
     those (map (upstream (produced s)) (into g x)) = Some vs \<and>
     produced (exec_node work ov g s x) = produced s @ [(x, outs)] \<and>
     cache (exec_node work ov g s x)
       (Fingerprint x (interface n) (literals ov n @ zip (map dst_in (into g x)) vs))
       = Some (Entry outs)"
  using assms
  by (auto simp add: exec_node_def Let_def split: option.splits entry.splits sum.splits)

lemma exec_node_hit:
  assumes "find_node g x = Some n"
    and "those (map (upstream (produced t)) (into g x)) = Some vs"
    and "cache t (Fingerprint x (interface n) (literals ov n @ zip (map dst_in (into g x)) vs))
           = Some (Entry outs)"
  shows "exec_node work ov g t x = t\<lparr>produced := produced t @ [(x, outs)]\<rparr>"
  using assms by (simp add: exec_node_def Let_def)

lemma exec_again:
  assumes "failed (foldl (exec_node work ov g) s xs) = []"
    and "blocked (foldl (exec_node work ov g) s xs) = []"
    and "produced t = produced s"
    and "\<And>fp outs. cache (foldl (exec_node work ov g) s xs) fp = Some (Entry outs) \<Longrightarrow>
           cache t fp = Some (Entry outs)"
  shows "foldl (exec_node work ov g) t xs =
           t\<lparr>produced := produced (foldl (exec_node work ov g) s xs)\<rparr>"
  using assms
proof (induction xs arbitrary: s t)
  case Nil
  then show ?case by simp
next
  case (Cons x xs)
  let ?s1 = "exec_node work ov g s x"
  let ?fin = "foldl (exec_node work ov g) ?s1 xs"
  from Cons.prems(1,2) have fin: "failed ?fin = []" "blocked ?fin = []" by simp_all
  from exec_clean_back [OF fin]
  have c1: "failed ?s1 = []" "blocked ?s1 = []" by simp_all
  from exec_node_completes [OF c1] obtain n vs outs where
    n: "find_node g x = Some n"
    and vs: "those (map (upstream (produced s)) (into g x)) = Some vs"
    and pr: "produced ?s1 = produced s @ [(x, outs)]"
    and ca: "cache ?s1
       (Fingerprint x (interface n) (literals ov n @ zip (map dst_in (into g x)) vs))
       = Some (Entry outs)"
    by blast
  from exec_keeps_entry [OF ca, of work ov g xs] Cons.prems(4)
  have hit: "cache t
       (Fingerprint x (interface n) (literals ov n @ zip (map dst_in (into g x)) vs))
       = Some (Entry outs)"
    by simp
  have t1: "exec_node work ov g t x = t\<lparr>produced := produced t @ [(x, outs)]\<rparr>"
    using n vs hit by (intro exec_node_hit) (simp_all add: Cons.prems(3))
  let ?t1 = "t\<lparr>produced := produced t @ [(x, outs)]\<rparr>"
  have "foldl (exec_node work ov g) ?t1 xs = ?t1\<lparr>produced := produced ?fin\<rparr>"
  proof (rule Cons.IH [OF fin])
    show "produced ?t1 = produced ?s1" by (simp add: pr Cons.prems(3))
  next
    fix fp outs' assume "cache ?fin fp = Some (Entry outs')"
    then show "cache ?t1 fp = Some (Entry outs')"
      using Cons.prems(4) by simp
  qed
  then show ?case by (simp add: t1)
qed

text \<open>
  C2. A run that is a \<open>Success\<close> (the graph is planned and no node fails or is blocked)
  is idempotent: run again with the same inputs on the cache the first run left, it is a
  \<open>Success\<close> again, produces the same outputs for every node, dispatches no unit of work
  (every node is a cache hit) and leaves the cache as it was.
\<close>

theorem run_idempotent:
  assumes "run work w ov c = Inr s1" and "status_of s1 = Success"
  shows "\<exists>s2. run work w ov (cache s1) = Inr s2 \<and> status_of s2 = Success \<and>
           produced s2 = produced s1 \<and> dispatched s2 = [] \<and> cache s2 = cache s1"
proof -
  let ?g = "flatten w"
  from assms(1) obtain seq where seq: "plan ?g = Inr seq"
    and s1: "s1 = foldl (exec_node work ov ?g)
        \<lparr>cache = c, produced = [], failed = [], blocked = [], dispatched = []\<rparr> seq"
    by (auto simp add: run_def Let_def split: sum.splits)
  from assms(2) have clean: "failed s1 = []" "blocked s1 = []"
    by (auto simp add: status_of_def split: if_splits)
  let ?s0 = "\<lparr>cache = c, produced = [], failed = [], blocked = [], dispatched = []\<rparr>"
  let ?t0 = "\<lparr>cache = cache s1, produced = [], failed = [], blocked = [], dispatched = []\<rparr>"
  have "foldl (exec_node work ov ?g) ?t0 seq =
      ?t0\<lparr>produced := produced (foldl (exec_node work ov ?g) ?s0 seq)\<rparr>"
    by (rule exec_again) (use clean s1 in simp_all)
  then have "run work w ov (cache s1) = Inr (?t0\<lparr>produced := produced s1\<rparr>)"
    by (simp add: run_def Let_def seq s1)
  then show ?thesis
    by (simp add: status_of_def)
qed

lemma chain3_flat: "flatten chain3 = chain3"
  by (simp add: flatten_def chain3_def resolve_conn_def)

lemma chain3_plan: "plan chain3 = Inr [''A'', ''B'', ''C'']"
  by (simp add: chain3_def plan_def edge_list_def ready_def Node_sel)

lemma chain3_first_run:
  "\<exists>s1. run succ_work chain3 [] Map.empty = Inr s1 \<and> status_of s1 = Success \<and>
     dispatched s1 = [''A'', ''B'', ''C''] \<and>
     produced s1 = [(''A'', [(''out'', PInt 2)]), (''B'', [(''out'', PInt 3)]),
                    (''C'', [(''out'', PInt 4)])]"
  unfolding run_def Let_def chain3_flat chain3_plan sum.case
  by (simp add: chain3_def Node_sel Let_def
      exec_node_def find_node_def find_member_def into_def upstream_def literals_def
      literal_inputs_def succ_work_def status_of_def)

theorem run_idempotent_witness:
  "\<exists>s1. run succ_work chain3 [] Map.empty = Inr s1 \<and> status_of s1 = Success \<and>
     dispatched s1 = [''A'', ''B'', ''C''] \<and>
     produced s1 = [(''A'', [(''out'', PInt 2)]), (''B'', [(''out'', PInt 3)]),
                    (''C'', [(''out'', PInt 4)])] \<and>
     (\<exists>s2. run succ_work chain3 [] (cache s1) = Inr s2 \<and> status_of s2 = Success \<and>
        produced s2 = produced s1 \<and> dispatched s2 = [] \<and> cache s2 = cache s1)"
proof -
  from chain3_first_run obtain s1 where
    r: "run succ_work chain3 [] Map.empty = Inr s1" and st: "status_of s1 = Success"
    and d: "dispatched s1 = [''A'', ''B'', ''C'']"
    and p: "produced s1 = [(''A'', [(''out'', PInt 2)]), (''B'', [(''out'', PInt 3)]),
                    (''C'', [(''out'', PInt 4)])]"
    by (elim exE conjE)
  show ?thesis
    by (rule exI [of _ s1]) (intro conjI r st d p run_idempotent [OF r st])
qed

end
